theory Spec2Isabelle
  imports Complex_Main
begin

section \<open>Numbers, errors and result mappings\<close>

text \<open>
  The two scripts of the repository, \<^verbatim>\<open>hypothesis_calc.py\<close> and
  \<^verbatim>\<open>calculadora_testes_hipoteses.py\<close>, compute with Python floats. The test procedures
  are read in exact arithmetic: a finite float is a \<^typ>\<open>real\<close> and no operation rounds or
  overflows. \<^verbatim>\<open>calculate_sample_stats\<close> is read twice, in exact arithmetic where the
  test procedures call it and in double precision, with every rounding and the overflow of
  a square, in a section of its own.
  What the code does where real arithmetic has no value is written out:
  \<^item> a division of two Python floats by zero raises \<^verbatim>\<open>ZeroDivisionError\<close>;
  \<^item> a division by a NumPy scalar equal to zero, and \<^verbatim>\<open>np.sqrt\<close> of a negative
    number, only warn and give \<^verbatim>\<open>inf\<close> or \<^verbatim>\<open>nan\<close>. In every procedure such a value is
    either stored in the result or multiplied and divided further by finite numbers, so one
    absorbing value \<open>NonFinite\<close> stands for both.
\<close>

datatype fl = Fin real | NonFinite

datatype error =
    InsufficientSampleSize
      \<comment> \<open>ValueError: "Amostra deve ter pelo menos 2 elementos", "Tamanho da amostra deve ser >= 2",
          "Tamanho da amostra 'n' deve ser > 1"\<close>
  | InvalidSignificanceLevel
      \<comment> \<open>ValueError: "alpha deve estar entre 0 e 1"\<close>
  | InvalidSpreadParameter
      \<comment> \<open>ValueError: "Desvio padrao 'S' nao pode ser negativo"\<close>
  | InvalidNullVariance
      \<comment> \<open>ValueError: "sigma_0^2 deve ser positivo", "Variancia hipotetica deve ser positiva"\<close>
  | InvalidProportion
      \<comment> \<open>ValueError: "Proporcoes devem estar entre 0 e 1"\<close>
  | IncompleteInputParameters
      \<comment> \<open>ValueError: "Valores incompletos para o teste."\<close>
  | InvalidTailTypeSelector
      \<comment> \<open>ValueError: "Tipo de teste invalido"\<close>
  | ZeroDivisionError
  | TypeError
  | OverflowError

text \<open>
  A result is a Python dict with a fixed key order: an association list. The keys of
  \<^verbatim>\<open>calculadora_testes_hipoteses.py\<close> are written without their accents and Greek letters.
\<close>

datatype val = Num fl | Cnt int | Txt string

type_synonym result = "(string \<times> val) list"

definition bind :: "error + 'a \<Rightarrow> ('a \<Rightarrow> error + 'b) \<Rightarrow> error + 'b" where
  "bind m f = (case m of Inl e \<Rightarrow> Inl e | Inr x \<Rightarrow> f x)"

definition py_div :: "real \<Rightarrow> real \<Rightarrow> error + real" where
  \<comment> \<open>\<^verbatim>\<open>a / b\<close> on Python floats and ints\<close>
  "py_div a b = (if b = 0 then Inl ZeroDivisionError else Inr (a / b))"

definition np_sqrt :: "real \<Rightarrow> fl" where
  "np_sqrt x = (if x < 0 then NonFinite else Fin (sqrt x))"

fun np_div :: "fl \<Rightarrow> fl \<Rightarrow> fl" where
  \<comment> \<open>\<^verbatim>\<open>a / b\<close> where \<open>b\<close> is a NumPy scalar that is never infinite\<close>
  "np_div (Fin a) (Fin b) = (if b = 0 then NonFinite else Fin (a / b))"
| "np_div _ _ = NonFinite"

fun np_mul :: "fl \<Rightarrow> fl \<Rightarrow> fl" where
  "np_mul (Fin a) (Fin b) = Fin (a * b)"
| "np_mul _ _ = NonFinite"

definition round_half_even :: "real \<Rightarrow> int" where
  "round_half_even y =
     (let f = \<lfloor>y\<rfloor>; d = y - of_int f
      in if d < 1 / 2 then f else if 1 / 2 < d then f + 1 else if even f then f else f + 1)"

definition py_round2 :: "real \<Rightarrow> real" where
  \<comment> \<open>\<^verbatim>\<open>round(x, 2)\<close>: to two decimals, ties to the even neighbour\<close>
  "py_round2 x = of_int (round_half_even (x * 100)) / 100"

fun round2 :: "fl \<Rightarrow> fl" where
  "round2 (Fin x) = Fin (py_round2 x)"
| "round2 NonFinite = NonFinite"

definition py_int :: "real \<Rightarrow> int" where
  \<comment> \<open>\<^verbatim>\<open>int(x)\<close> on a float: truncation towards zero\<close>
  "py_int x = (if 0 \<le> x then \<lfloor>x\<rfloor> else \<lceil>x\<rceil>)"

text \<open>
  The quantile functions \<^verbatim>\<open>stats.t.ppf\<close>, \<^verbatim>\<open>stats.norm.ppf\<close>, \<^verbatim>\<open>stats.chi2.ppf\<close> and
  \<^verbatim>\<open>stats.f.ppf\<close> belong to SciPy, not to the repository: every procedure takes them as a
  parameter. Each procedure calls them only with a probability in the open unit interval and
  positive degrees of freedom.
\<close>

record quantiles =
  t_ppf :: "real \<Rightarrow> real \<Rightarrow> real"
  norm_ppf :: "real \<Rightarrow> real"
  chi2_ppf :: "real \<Rightarrow> real \<Rightarrow> real"
  f_ppf :: "real \<Rightarrow> real \<Rightarrow> real \<Rightarrow> real"

section \<open>hypothesis\_calc.py: helpers\<close>

definition calculate_sample_stats :: "real list \<Rightarrow> error + (real \<times> real \<times> real \<times> int)" where
  \<comment> \<open>the exact-arithmetic reading: the variance is a sum of squares over a positive
      divisor, so \<^verbatim>\<open>np.sqrt\<close> is given a non-negative number\<close>
  "calculate_sample_stats sample =
     (let n = int (length sample)
      in if n < 2 then Inl InsufficientSampleSize
         else
           let mean = sum_list sample / of_int n;
               variance = sum_list (map (\<lambda>x. (x - mean)\<^sup>2) sample) / (of_int n - 1);
               std_dev = sqrt variance
           in Inr (mean, variance, std_dev, n))"

definition validate_alpha :: "real \<Rightarrow> error + unit" where
  "validate_alpha alpha =
     (if \<not> (0 < alpha \<and> alpha < 1) then Inl InvalidSignificanceLevel else Inr ())"

definition validate_sample_size :: "int \<Rightarrow> error + unit" where
  "validate_sample_size n = (if n < 2 then Inl InsufficientSampleSize else Inr ())"

section \<open>hypothesis\_calc.py: the nine test procedures\<close>

text \<open>
  Every optional argument is an \<open>option\<close>. A procedure first replaces the summary arguments
  by the statistics of the sample(s) when given, then refuses a missing value, validates and
  computes. The values read with \<open>the\<close> are those the completeness check has found present.
\<close>

definition test_mean_unknown_variance ::
  "quantiles \<Rightarrow> real option \<Rightarrow> real option \<Rightarrow> int option \<Rightarrow> real option \<Rightarrow> real option \<Rightarrow>
   real list option \<Rightarrow> error + result" where
  "test_mean_unknown_variance Q x_bar s n mu_0 alpha sample =
     bind (case sample of
             Some xs \<Rightarrow> bind (calculate_sample_stats xs)
                          (\<lambda>(m, _, sd, k). Inr (Some m, Some sd, Some k))
           | None \<Rightarrow> Inr (x_bar, s, n))
       (\<lambda>(x_bar, s, n).
          if x_bar = None \<or> s = None \<or> n = None \<or> mu_0 = None \<or> alpha = None
          then Inl IncompleteInputParameters
          else
            let x_bar = the x_bar; s = the s; n = the n; mu_0 = the mu_0; alpha = the alpha
            in bind (validate_alpha alpha) (\<lambda>_.
               bind (validate_sample_size n) (\<lambda>_.
                 let t_calc = np_div (Fin (x_bar - mu_0)) (np_div (Fin s) (np_sqrt (of_int n)));
                     df = n - 1;
                     t_crit_bilateral = t_ppf Q (1 - alpha / 2) (of_int df);
                     t_crit_unilateral = t_ppf Q (1 - alpha) (of_int df)
                 in Inr [(''x_bar'', Num (round2 (Fin x_bar))),
                         (''s'', Num (round2 (Fin s))),
                         (''n'', Cnt n),
                         (''mu_0'', Num (Fin mu_0)),
                         (''alpha'', Num (Fin alpha)),
                         (''t_calc'', Num (round2 t_calc)),
                         (''df'', Cnt df),
                         (''t_critico_bilateral'', Num (round2 (Fin t_crit_bilateral))),
                         (''t_critico_unilateral'', Num (round2 (Fin t_crit_unilateral)))])))"

definition two_samples ::
  "real list option \<Rightarrow> real list option \<Rightarrow>
   (real option \<times> real option \<times> int option) \<Rightarrow> (real option \<times> real option \<times> int option) \<Rightarrow>
   error + ((real option \<times> real option \<times> int option) \<times> (real option \<times> real option \<times> int option))" where
  \<comment> \<open>the shared opening of the two-sample procedures: (mean, variance, count) of each
      sample when both samples are given, the summary arguments otherwise\<close>
  "two_samples sample_1 sample_2 summary_1 summary_2 =
     (if sample_1 \<noteq> None \<and> sample_2 \<noteq> None
      then bind (calculate_sample_stats (the sample_1)) (\<lambda>(m1, v1, _, k1).
           bind (calculate_sample_stats (the sample_2)) (\<lambda>(m2, v2, _, k2).
             Inr ((Some m1, Some v1, Some k1), (Some m2, Some v2, Some k2))))
      else Inr (summary_1, summary_2))"

definition test_diff_means_equal_variances ::
  "quantiles \<Rightarrow> real option \<Rightarrow> real option \<Rightarrow> real option \<Rightarrow> real option \<Rightarrow>
   int option \<Rightarrow> int option \<Rightarrow> real option \<Rightarrow> real list option \<Rightarrow> real list option \<Rightarrow>
   error + result" where
  "test_diff_means_equal_variances Q x_bar_1 x_bar_2 s_sq_1 s_sq_2 n_1 n_2 alpha sample_1 sample_2 =
     bind (two_samples sample_1 sample_2 (x_bar_1, s_sq_1, n_1) (x_bar_2, s_sq_2, n_2))
       (\<lambda>((x_bar_1, s_sq_1, n_1), (x_bar_2, s_sq_2, n_2)).
          if x_bar_1 = None \<or> x_bar_2 = None \<or> s_sq_1 = None \<or> s_sq_2 = None \<or>
             n_1 = None \<or> n_2 = None \<or> alpha = None
          then Inl IncompleteInputParameters
          else
            let x_bar_1 = the x_bar_1; x_bar_2 = the x_bar_2; s_sq_1 = the s_sq_1;
                s_sq_2 = the s_sq_2; n_1 = the n_1; n_2 = the n_2; alpha = the alpha
            in bind (validate_alpha alpha) (\<lambda>_.
               bind (validate_sample_size n_1) (\<lambda>_.
               bind (validate_sample_size n_2) (\<lambda>_.
                 let s_p_sq = ((of_int n_1 - 1) * s_sq_1 + (of_int n_2 - 1) * s_sq_2)
                                / (of_int n_1 + of_int n_2 - 2);
                     s_p = np_sqrt s_p_sq;
                     t_calc = np_div (Fin (x_bar_1 - x_bar_2))
                                (np_mul s_p (np_sqrt (1 / of_int n_1 + 1 / of_int n_2)));
                     df = n_1 + n_2 - 2;
                     t_crit_bilateral = t_ppf Q (1 - alpha / 2) (of_int df);
                     t_crit_unilateral = t_ppf Q (1 - alpha) (of_int df)
                 in Inr [(''x_bar_1'', Num (round2 (Fin x_bar_1))),
                         (''x_bar_2'', Num (round2 (Fin x_bar_2))),
                         (''s_sq_1'', Num (round2 (Fin s_sq_1))),
                         (''s_sq_2'', Num (round2 (Fin s_sq_2))),
                         (''n_1'', Cnt n_1),
                         (''n_2'', Cnt n_2),
                         (''alpha'', Num (Fin alpha)),
                         (''s_p_sq'', Num (round2 (Fin s_p_sq))),
                         (''s_p'', Num (round2 s_p)),
                         (''t_calc'', Num (round2 t_calc)),
                         (''df'', Cnt df),
                         (''t_critico_bilateral'', Num (round2 (Fin t_crit_bilateral))),
                         (''t_critico_unilateral'', Num (round2 (Fin t_crit_unilateral)))]))))"

definition welch_df :: "real \<Rightarrow> real \<Rightarrow> real \<Rightarrow> real \<Rightarrow> error + real" where
  \<comment> \<open>the degrees of freedom as both scripts compute them from \<open>W\<^sub>1\<close>, \<open>W\<^sub>2\<close>, \<open>n\<^sub>1\<close>, \<open>n\<^sub>2\<close>\<close>
  "welch_df w_1 w_2 n_1 n_2 =
     (let numerator = (w_1 + w_2)\<^sup>2;
          denominator = w_1\<^sup>2 / (n_1 + 1) + w_2\<^sup>2 / (n_2 + 1)
      in py_div numerator denominator)"

definition test_diff_means_welch ::
  "quantiles \<Rightarrow> real option \<Rightarrow> real option \<Rightarrow> real option \<Rightarrow> real option \<Rightarrow>
   int option \<Rightarrow> int option \<Rightarrow> real option \<Rightarrow> real list option \<Rightarrow> real list option \<Rightarrow>
   error + result" where
  "test_diff_means_welch Q x_bar_1 x_bar_2 s_sq_1 s_sq_2 n_1 n_2 alpha sample_1 sample_2 =
     bind (two_samples sample_1 sample_2 (x_bar_1, s_sq_1, n_1) (x_bar_2, s_sq_2, n_2))
       (\<lambda>((x_bar_1, s_sq_1, n_1), (x_bar_2, s_sq_2, n_2)).
          if x_bar_1 = None \<or> x_bar_2 = None \<or> s_sq_1 = None \<or> s_sq_2 = None \<or>
             n_1 = None \<or> n_2 = None \<or> alpha = None
          then Inl IncompleteInputParameters
          else
            let x_bar_1 = the x_bar_1; x_bar_2 = the x_bar_2; s_sq_1 = the s_sq_1;
                s_sq_2 = the s_sq_2; n_1 = the n_1; n_2 = the n_2; alpha = the alpha
            in bind (validate_alpha alpha) (\<lambda>_.
               bind (validate_sample_size n_1) (\<lambda>_.
               bind (validate_sample_size n_2) (\<lambda>_.
                 let w_1 = s_sq_1 / of_int n_1;
                     w_2 = s_sq_2 / of_int n_2;
                     t_calc = np_div (Fin (x_bar_1 - x_bar_2)) (np_sqrt (w_1 + w_2))
                 in bind (welch_df w_1 w_2 (of_int n_1) (of_int n_2)) (\<lambda>df.
                      let t_crit_bilateral = t_ppf Q (1 - alpha / 2) df;
                          t_crit_unilateral = t_ppf Q (1 - alpha) df
                      in Inr [(''x_bar_1'', Num (round2 (Fin x_bar_1))),
                              (''x_bar_2'', Num (round2 (Fin x_bar_2))),
                              (''s_sq_1'', Num (round2 (Fin s_sq_1))),
                              (''s_sq_2'', Num (round2 (Fin s_sq_2))),
                              (''n_1'', Cnt n_1),
                              (''n_2'', Cnt n_2),
                              (''alpha'', Num (Fin alpha)),
                              (''w_1'', Num (round2 (Fin w_1))),
                              (''w_2'', Num (round2 (Fin w_2))),
                              (''t_calc'', Num (round2 t_calc)),
                              (''df'', Num (round2 (Fin df))),
                              (''t_critico_bilateral'', Num (round2 (Fin t_crit_bilateral))),
                              (''t_critico_unilateral'', Num (round2 (Fin t_crit_unilateral)))])))))"

definition test_paired_samples ::
  "quantiles \<Rightarrow> real option \<Rightarrow> real option \<Rightarrow> int option \<Rightarrow> real \<Rightarrow> real option \<Rightarrow>
   real list option \<Rightarrow> error + result" where
  \<comment> \<open>\<open>delta\<close> is not optional in the source: it defaults to 0\<close>
  "test_paired_samples Q d_bar s_d n delta alpha sample_diff =
     bind (case sample_diff of
             Some xs \<Rightarrow> bind (calculate_sample_stats xs)
                          (\<lambda>(m, _, sd, k). Inr (Some m, Some sd, Some k))
           | None \<Rightarrow> Inr (d_bar, s_d, n))
       (\<lambda>(d_bar, s_d, n).
          if d_bar = None \<or> s_d = None \<or> n = None \<or> alpha = None
          then Inl IncompleteInputParameters
          else
            let d_bar = the d_bar; s_d = the s_d; n = the n; alpha = the alpha
            in bind (validate_alpha alpha) (\<lambda>_.
               bind (validate_sample_size n) (\<lambda>_.
                 let t_calc = np_div (Fin (d_bar - delta)) (np_div (Fin s_d) (np_sqrt (of_int n)));
                     df = n - 1;
                     t_crit_bilateral = t_ppf Q (1 - alpha / 2) (of_int df);
                     t_crit_unilateral = t_ppf Q (1 - alpha) (of_int df)
                 in Inr [(''d_bar'', Num (round2 (Fin d_bar))),
                         (''s_d'', Num (round2 (Fin s_d))),
                         (''n'', Cnt n),
                         (''delta'', Num (Fin delta)),
                         (''alpha'', Num (Fin alpha)),
                         (''t_calc'', Num (round2 t_calc)),
                         (''df'', Cnt df),
                         (''t_critico_bilateral'', Num (round2 (Fin t_crit_bilateral))),
                         (''t_critico_unilateral'', Num (round2 (Fin t_crit_unilateral)))])))"

definition test_mean_known_variance ::
  "quantiles \<Rightarrow> real option \<Rightarrow> real option \<Rightarrow> int option \<Rightarrow> real option \<Rightarrow> real option \<Rightarrow>
   real list option \<Rightarrow> error + result" where
  \<comment> \<open>the sample gives the mean and the count only, by \<^verbatim>\<open>sum(sample) / len(sample)\<close>\<close>
  "test_mean_known_variance Q x_bar sigma n mu_0 alpha sample =
     bind (case sample of
             Some xs \<Rightarrow> bind (py_div (sum_list xs) (of_nat (length xs)))
                          (\<lambda>m. Inr (Some m, Some (int (length xs))))
           | None \<Rightarrow> Inr (x_bar, n))
       (\<lambda>(x_bar, n).
          if x_bar = None \<or> sigma = None \<or> n = None \<or> mu_0 = None \<or> alpha = None
          then Inl IncompleteInputParameters
          else
            let x_bar = the x_bar; sigma = the sigma; n = the n; mu_0 = the mu_0;
                alpha = the alpha
            in bind (validate_alpha alpha) (\<lambda>_.
               bind (validate_sample_size n) (\<lambda>_.
                 let z_calc = np_div (Fin (x_bar - mu_0))
                                (np_div (Fin sigma) (np_sqrt (of_int n)));
                     z_crit_bilateral = norm_ppf Q (1 - alpha / 2);
                     z_crit_unilateral = norm_ppf Q (1 - alpha)
                 in Inr [(''x_bar'', Num (round2 (Fin x_bar))),
                         (''sigma'', Num (Fin sigma)),
                         (''n'', Cnt n),
                         (''mu_0'', Num (Fin mu_0)),
                         (''alpha'', Num (Fin alpha)),
                         (''z_calc'', Num (round2 z_calc)),
                         (''z_critico_bilateral'', Num (round2 (Fin z_crit_bilateral))),
                         (''z_critico_unilateral'', Num (round2 (Fin z_crit_unilateral)))])))"

definition test_proportion ::
  "quantiles \<Rightarrow> real option \<Rightarrow> real option \<Rightarrow> int option \<Rightarrow> real option \<Rightarrow> int option \<Rightarrow>
   error + result" where
  "test_proportion Q p_hat p_0 n alpha successes =
     bind (if successes \<noteq> None \<and> n \<noteq> None
           then bind (py_div (of_int (the successes)) (of_int (the n))) (\<lambda>p. Inr (Some p))
           else Inr p_hat)
       (\<lambda>p_hat.
          if p_hat = None \<or> p_0 = None \<or> n = None \<or> alpha = None
          then Inl IncompleteInputParameters
          else
            let p_hat = the p_hat; p_0 = the p_0; n = the n; alpha = the alpha
            in bind (validate_alpha alpha) (\<lambda>_.
               bind (validate_sample_size n) (\<lambda>_.
                 if \<not> (0 \<le> p_hat \<and> p_hat \<le> 1 \<and> 0 \<le> p_0 \<and> p_0 \<le> 1)
                 then Inl InvalidProportion
                 else
                   let z_calc = np_div (Fin (p_hat - p_0)) (np_sqrt (p_0 * (1 - p_0) / of_int n));
                       z_crit_bilateral = norm_ppf Q (1 - alpha / 2);
                       z_crit_unilateral = norm_ppf Q (1 - alpha)
                   in Inr [(''p_hat'', Num (round2 (Fin p_hat))),
                           (''p_0'', Num (Fin p_0)),
                           (''n'', Cnt n),
                           (''alpha'', Num (Fin alpha)),
                           (''z_calc'', Num (round2 z_calc)),
                           (''z_critico_bilateral'', Num (round2 (Fin z_crit_bilateral))),
                           (''z_critico_unilateral'', Num (round2 (Fin z_crit_unilateral)))])))"

definition test_variance ::
  "quantiles \<Rightarrow> real option \<Rightarrow> real option \<Rightarrow> int option \<Rightarrow> real option \<Rightarrow> real list option \<Rightarrow>
   error + result" where
  "test_variance Q s_sq sigma_0_sq n alpha sample =
     bind (case sample of
             Some xs \<Rightarrow> bind (calculate_sample_stats xs) (\<lambda>(_, v, _, k). Inr (Some v, Some k))
           | None \<Rightarrow> Inr (s_sq, n))
       (\<lambda>(s_sq, n).
          if s_sq = None \<or> sigma_0_sq = None \<or> n = None \<or> alpha = None
          then Inl IncompleteInputParameters
          else
            let s_sq = the s_sq; sigma_0_sq = the sigma_0_sq; n = the n; alpha = the alpha
            in bind (validate_alpha alpha) (\<lambda>_.
               bind (validate_sample_size n) (\<lambda>_.
                 if sigma_0_sq \<le> 0 then Inl InvalidNullVariance
                 else
                   let chi_sq_calc = (of_int n - 1) * s_sq / sigma_0_sq;
                       df = n - 1;
                       chi_sq_crit_lower = chi2_ppf Q (alpha / 2) (of_int df);
                       chi_sq_crit_upper = chi2_ppf Q (1 - alpha / 2) (of_int df);
                       chi_sq_crit_upper_uni = chi2_ppf Q (1 - alpha) (of_int df);
                       chi_sq_crit_lower_uni = chi2_ppf Q alpha (of_int df)
                   in Inr [(''s_sq'', Num (round2 (Fin s_sq))),
                           (''sigma_0_sq'', Num (Fin sigma_0_sq)),
                           (''n'', Cnt n),
                           (''alpha'', Num (Fin alpha)),
                           (''chi_sq_calc'', Num (round2 (Fin chi_sq_calc))),
                           (''df'', Cnt df),
                           (''chi_sq_critico_bilateral_lower'', Num (round2 (Fin chi_sq_crit_lower))),
                           (''chi_sq_critico_bilateral_upper'', Num (round2 (Fin chi_sq_crit_upper))),
                           (''chi_sq_critico_unilateral_dir'', Num (round2 (Fin chi_sq_crit_upper_uni))),
                           (''chi_sq_critico_unilateral_esq'', Num (round2 (Fin chi_sq_crit_lower_uni)))])))"

definition div_by_count :: "int \<Rightarrow> int option \<Rightarrow> error + real" where
  \<comment> \<open>\<^verbatim>\<open>successes / n\<close> where \<open>n\<close> may be \<^verbatim>\<open>None\<close>: dividing an int by \<^verbatim>\<open>None\<close> raises
      \<^verbatim>\<open>TypeError\<close>\<close>
  "div_by_count successes n =
     (case n of None \<Rightarrow> Inl TypeError | Some k \<Rightarrow> py_div (of_int successes) (of_int k))"

definition test_diff_proportions ::
  "quantiles \<Rightarrow> real option \<Rightarrow> real option \<Rightarrow> int option \<Rightarrow> int option \<Rightarrow> real option \<Rightarrow>
   int option \<Rightarrow> int option \<Rightarrow> error + result" where
  "test_diff_proportions Q p_hat_1 p_hat_2 n_1 n_2 alpha successes_1 successes_2 =
     bind (if successes_1 \<noteq> None \<and> successes_2 \<noteq> None
           then bind (div_by_count (the successes_1) n_1) (\<lambda>p1.
                bind (div_by_count (the successes_2) n_2) (\<lambda>p2.
                  Inr (Some p1, Some p2)))
           else Inr (p_hat_1, p_hat_2))
       (\<lambda>(p_hat_1, p_hat_2).
          if p_hat_1 = None \<or> p_hat_2 = None \<or> n_1 = None \<or> n_2 = None \<or> alpha = None
          then Inl IncompleteInputParameters
          else
            let p_hat_1 = the p_hat_1; p_hat_2 = the p_hat_2; n_1 = the n_1; n_2 = the n_2;
                alpha = the alpha
            in bind (validate_alpha alpha) (\<lambda>_.
               bind (validate_sample_size n_1) (\<lambda>_.
               bind (validate_sample_size n_2) (\<lambda>_.
                 if \<not> (0 \<le> p_hat_1 \<and> p_hat_1 \<le> 1 \<and> 0 \<le> p_hat_2 \<and> p_hat_2 \<le> 1)
                 then Inl InvalidProportion
                 else
                   let p_hat = (p_hat_1 * of_int n_1 + p_hat_2 * of_int n_2)
                                 / (of_int n_1 + of_int n_2);
                       z_calc = np_div (Fin (p_hat_1 - p_hat_2))
                                  (np_sqrt (p_hat * (1 - p_hat) * (1 / of_int n_1 + 1 / of_int n_2)));
                       z_crit_bilateral = norm_ppf Q (1 - alpha / 2);
                       z_crit_unilateral = norm_ppf Q (1 - alpha)
                   in Inr [(''p_hat_1'', Num (round2 (Fin p_hat_1))),
                           (''p_hat_2'', Num (round2 (Fin p_hat_2))),
                           (''n_1'', Cnt n_1),
                           (''n_2'', Cnt n_2),
                           (''alpha'', Num (Fin alpha)),
                           (''p_hat_pooled'', Num (round2 (Fin p_hat))),
                           (''z_calc'', Num (round2 z_calc)),
                           (''z_critico_bilateral'', Num (round2 (Fin z_crit_bilateral))),
                           (''z_critico_unilateral'', Num (round2 (Fin z_crit_unilateral)))]))))"

definition test_diff_variances ::
  "quantiles \<Rightarrow> real option \<Rightarrow> real option \<Rightarrow> int option \<Rightarrow> int option \<Rightarrow> real option \<Rightarrow>
   real list option \<Rightarrow> real list option \<Rightarrow> error + result" where
  "test_diff_variances Q s_sq_1 s_sq_2 n_1 n_2 alpha sample_1 sample_2 =
     bind (two_samples sample_1 sample_2 (None, s_sq_1, n_1) (None, s_sq_2, n_2))
       (\<lambda>((_, s_sq_1, n_1), (_, s_sq_2, n_2)).
          if s_sq_1 = None \<or> s_sq_2 = None \<or> n_1 = None \<or> n_2 = None \<or> alpha = None
          then Inl IncompleteInputParameters
          else
            let s_sq_1 = the s_sq_1; s_sq_2 = the s_sq_2; n_1 = the n_1; n_2 = the n_2;
                alpha = the alpha
            in bind (validate_alpha alpha) (\<lambda>_.
               bind (validate_sample_size n_1) (\<lambda>_.
               bind (validate_sample_size n_2) (\<lambda>_.
               bind (py_div s_sq_1 s_sq_2) (\<lambda>f_calc.
                 let df_1 = n_1 - 1;
                     df_2 = n_2 - 1;
                     f_crit_bilateral = f_ppf Q (1 - alpha / 2) (of_int df_1) (of_int df_2);
                     f_crit_unilateral = f_ppf Q (1 - alpha) (of_int df_1) (of_int df_2)
                 in Inr [(''s_sq_1'', Num (round2 (Fin s_sq_1))),
                         (''s_sq_2'', Num (round2 (Fin s_sq_2))),
                         (''n_1'', Cnt n_1),
                         (''n_2'', Cnt n_2),
                         (''alpha'', Num (Fin alpha)),
                         (''f_calc'', Num (round2 (Fin f_calc))),
                         (''df_1'', Cnt df_1),
                         (''df_2'', Cnt df_2),
                         (''f_critico_bilateral'', Num (round2 (Fin f_crit_bilateral))),
                         (''f_critico_unilateral'', Num (round2 (Fin f_crit_unilateral)))])))))"

section \<open>calculadora\_testes\_hipoteses.py: the ten interactive procedures\<close>

text \<open>
  Each procedure of this script reads its inputs from the console with
  \<^verbatim>\<open>float(input(...))\<close> and the tail selector with \<^verbatim>\<open>input(...).lower().strip()\<close>; the
  embedding takes the numbers read and the normalised selector as arguments, so the sample
  size is a real number here. A \<^verbatim>\<open>ValueError\<close> is caught by the procedure, which prints
  it and returns \<^verbatim>\<open>None\<close>: that is \<open>Inl\<close> of its kind. \<^verbatim>\<open>ZeroDivisionError\<close> is not
  caught and leaves the procedure.
\<close>

definition validar_parametros :: "real option \<Rightarrow> real option \<Rightarrow> real option \<Rightarrow> error + unit" where
  "validar_parametros n alpha s =
     (if n \<noteq> None \<and> the n \<le> 1 then Inl InsufficientSampleSize
      else if alpha \<noteq> None \<and> (the alpha \<le> 0 \<or> the alpha \<ge> 1) then Inl InvalidSignificanceLevel
      else if s \<noteq> None \<and> the s < 0 then Inl InvalidSpreadParameter
      else Inr ())"

definition tipo_valido :: "string \<Rightarrow> error + unit" where
  "tipo_valido tipo_teste =
     (if tipo_teste \<notin> set [''bilateral'', ''unilateral_dir'', ''unilateral_esq'']
      then Inl InvalidTailTypeSelector else Inr ())"

definition critico_simetrico :: "(real \<Rightarrow> real) \<Rightarrow> real \<Rightarrow> string \<Rightarrow> real" where
  \<comment> \<open>the chain every t and z procedure repeats; \<open>ppf\<close> is the quantile function of the
      reference distribution, with its degrees of freedom already given\<close>
  "critico_simetrico ppf alpha tipo_teste =
     (if tipo_teste = ''bilateral'' then ppf (1 - alpha / 2)
      else if tipo_teste = ''unilateral_dir'' then ppf (1 - alpha)
      else - ppf (1 - alpha))"

definition t_media_var_desconhecida ::
  "quantiles \<Rightarrow> real \<Rightarrow> real \<Rightarrow> real \<Rightarrow> real \<Rightarrow> real \<Rightarrow> string \<Rightarrow> error + result" where
  "t_media_var_desconhecida Q x_barra mu_0 s n alpha tipo_teste =
     bind (tipo_valido tipo_teste) (\<lambda>_.
     bind (validar_parametros (Some n) (Some alpha) (Some s)) (\<lambda>_.
       let gl = n - 1;
           t_calc = np_div (Fin (x_barra - mu_0)) (np_div (Fin s) (np_sqrt n));
           t_crit = critico_simetrico (\<lambda>p. t_ppf Q p gl) alpha tipo_teste
       in Inr [(''Tipo de Teste'', Txt tipo_teste),
               (''Graus de Liberdade (gl)'', Cnt (py_int gl)),
               (''t_calculado'', Num t_calc),
               (''t_critico'', Num (Fin t_crit)),
               (''Nivel de Significancia (alpha)'', Num (Fin alpha))]))"

definition z_media_var_conhecida ::
  "quantiles \<Rightarrow> real \<Rightarrow> real \<Rightarrow> real \<Rightarrow> real \<Rightarrow> real \<Rightarrow> string \<Rightarrow> error + result" where
  "z_media_var_conhecida Q x_barra mu_0 sigma n alpha tipo_teste =
     bind (tipo_valido tipo_teste) (\<lambda>_.
     bind (validar_parametros (Some n) (Some alpha) (Some sigma)) (\<lambda>_.
       let z_calc = np_div (Fin (x_barra - mu_0)) (np_div (Fin sigma) (np_sqrt n));
           z_crit = critico_simetrico (norm_ppf Q) alpha tipo_teste
       in Inr [(''Tipo de Teste'', Txt tipo_teste),
               (''z_calculado'', Num z_calc),
               (''z_critico'', Num (Fin z_crit)),
               (''Nivel de Significancia (alpha)'', Num (Fin alpha))]))"

definition chi2_variancia ::
  "quantiles \<Rightarrow> real \<Rightarrow> real \<Rightarrow> real \<Rightarrow> real \<Rightarrow> string \<Rightarrow> error + result" where
  "chi2_variancia Q s sigma2_0 n alpha tipo_teste =
     bind (tipo_valido tipo_teste) (\<lambda>_.
     bind (validar_parametros (Some n) (Some alpha) (Some s)) (\<lambda>_.
       if sigma2_0 \<le> 0 then Inl InvalidNullVariance
       else
         let gl = n - 1;
             chi2_calc = ((n - 1) * s\<^sup>2) / sigma2_0
         in if tipo_teste = ''bilateral''
            then
              let chi2_crit_inf = chi2_ppf Q (alpha / 2) gl;
                  chi2_crit_sup = chi2_ppf Q (1 - alpha / 2) gl
              in Inr [(''Tipo de Teste'', Txt tipo_teste),
                      (''Graus de Liberdade (gl)'', Cnt (py_int gl)),
                      (''chi2_calculado'', Num (Fin chi2_calc)),
                      (''chi2_critico (inferior)'', Num (Fin chi2_crit_inf)),
                      (''chi2_critico (superior)'', Num (Fin chi2_crit_sup)),
                      (''Nivel de Significancia (alpha)'', Num (Fin alpha))]
            else if tipo_teste = ''unilateral_dir''
            then
              let chi2_crit = chi2_ppf Q (1 - alpha) gl
              in Inr [(''Tipo de Teste'', Txt tipo_teste),
                      (''Graus de Liberdade (gl)'', Cnt (py_int gl)),
                      (''chi2_calculado'', Num (Fin chi2_calc)),
                      (''chi2_critico'', Num (Fin chi2_crit)),
                      (''Nivel de Significancia (alpha)'', Num (Fin alpha))]
            else
              let chi2_crit = chi2_ppf Q alpha gl
              in Inr [(''Tipo de Teste'', Txt tipo_teste),
                      (''Graus de Liberdade (gl)'', Cnt (py_int gl)),
                      (''chi2_calculado'', Num (Fin chi2_calc)),
                      (''chi2_critico'', Num (Fin chi2_crit)),
                      (''Nivel de Significancia (alpha)'', Num (Fin alpha))]))"

definition z_proporcao ::
  "quantiles \<Rightarrow> real \<Rightarrow> real \<Rightarrow> real \<Rightarrow> real \<Rightarrow> string \<Rightarrow> error + result" where
  "z_proporcao Q p_hat p_0 n alpha tipo_teste =
     bind (tipo_valido tipo_teste) (\<lambda>_.
     bind (validar_parametros (Some n) (Some alpha) None) (\<lambda>_.
       if \<not> (0 \<le> p_hat \<and> p_hat \<le> 1) \<or> \<not> (0 \<le> p_0 \<and> p_0 \<le> 1) then Inl InvalidProportion
       else
         let z_calc = np_div (Fin (p_hat - p_0)) (np_sqrt ((p_0 * (1 - p_0)) / n));
             z_crit = critico_simetrico (norm_ppf Q) alpha tipo_teste
         in Inr [(''Tipo de Teste'', Txt tipo_teste),
                 (''z_calculado'', Num z_calc),
                 (''z_critico'', Num (Fin z_crit)),
                 (''Nivel de Significancia (alpha)'', Num (Fin alpha))]))"

definition t_dif_medias_var_iguais ::
  "quantiles \<Rightarrow> real \<Rightarrow> real \<Rightarrow> real \<Rightarrow> real \<Rightarrow> real \<Rightarrow> real \<Rightarrow> real \<Rightarrow> string \<Rightarrow> error + result" where
  "t_dif_medias_var_iguais Q x1_barra x2_barra s1 s2 n1 n2 alpha tipo_teste =
     bind (tipo_valido tipo_teste) (\<lambda>_.
     bind (validar_parametros (Some n1) (Some alpha) (Some s1)) (\<lambda>_.
     bind (validar_parametros (Some n2) (Some alpha) (Some s2)) (\<lambda>_.
       let gl = n1 + n2 - 2;
           sp2 = ((n1 - 1) * s1\<^sup>2 + (n2 - 1) * s2\<^sup>2) / gl;
           sp = np_sqrt sp2;
           t_calc = np_div (Fin (x1_barra - x2_barra)) (np_mul sp (np_sqrt (1 / n1 + 1 / n2)));
           t_crit = critico_simetrico (\<lambda>p. t_ppf Q p gl) alpha tipo_teste
       in Inr [(''Tipo de Teste'', Txt tipo_teste),
               (''Graus de Liberdade (gl)'', Cnt (py_int gl)),
               (''Variancia Ponderada (Sp2)'', Num (Fin sp2)),
               (''Desvio Padrao Ponderado (Sp)'', Num sp),
               (''t_calculado'', Num t_calc),
               (''t_critico'', Num (Fin t_crit)),
               (''Nivel de Significancia (alpha)'', Num (Fin alpha))])))"

definition t_welch_dif_medias ::
  "quantiles \<Rightarrow> real \<Rightarrow> real \<Rightarrow> real \<Rightarrow> real \<Rightarrow> real \<Rightarrow> real \<Rightarrow> real \<Rightarrow> string \<Rightarrow> error + result" where
  "t_welch_dif_medias Q x1_barra x2_barra s1 s2 n1 n2 alpha tipo_teste =
     bind (tipo_valido tipo_teste) (\<lambda>_.
     bind (validar_parametros (Some n1) (Some alpha) (Some s1)) (\<lambda>_.
     bind (validar_parametros (Some n2) (Some alpha) (Some s2)) (\<lambda>_.
       let W1 = s1\<^sup>2 / n1;
           W2 = s2\<^sup>2 / n2
       in bind (welch_df W1 W2 n1 n2) (\<lambda>gl_welch.
            let t_calc = np_div (Fin (x1_barra - x2_barra)) (np_sqrt (W1 + W2));
                t_crit = critico_simetrico (\<lambda>p. t_ppf Q p gl_welch) alpha tipo_teste
            in Inr [(''Tipo de Teste'', Txt tipo_teste),
                    (''W1 (S12/n1)'', Num (Fin W1)),
                    (''W2 (S22/n2)'', Num (Fin W2)),
                    (''Graus de Liberdade Welch (nu)'', Num (Fin gl_welch)),
                    (''t_calculado'', Num t_calc),
                    (''t_critico'', Num (Fin t_crit)),
                    (''Nivel de Significancia (alpha)'', Num (Fin alpha))]))))"

definition t_pareado ::
  "quantiles \<Rightarrow> real \<Rightarrow> real \<Rightarrow> real \<Rightarrow> real \<Rightarrow> real \<Rightarrow> string \<Rightarrow> error + result" where
  "t_pareado Q d_barra delta sd n alpha tipo_teste =
     bind (tipo_valido tipo_teste) (\<lambda>_.
     bind (validar_parametros (Some n) (Some alpha) (Some sd)) (\<lambda>_.
       let gl = n - 1;
           t_calc = np_div (Fin (d_barra - delta)) (np_div (Fin sd) (np_sqrt n));
           t_crit = critico_simetrico (\<lambda>p. t_ppf Q p gl) alpha tipo_teste
       in Inr [(''Tipo de Teste'', Txt tipo_teste),
               (''Graus de Liberdade (gl)'', Cnt (py_int gl)),
               (''Diferenca Hipotetica (Delta)'', Num (Fin delta)),
               (''t_calculado'', Num t_calc),
               (''t_critico'', Num (Fin t_crit)),
               (''Nivel de Significancia (alpha)'', Num (Fin alpha))]))"

definition z_dif_medias_var_conhecidas ::
  "quantiles \<Rightarrow> real \<Rightarrow> real \<Rightarrow> real \<Rightarrow> real \<Rightarrow> real \<Rightarrow> real \<Rightarrow> real \<Rightarrow> string \<Rightarrow> error + result" where
  "z_dif_medias_var_conhecidas Q x1_barra x2_barra sigma1 sigma2 n1 n2 alpha tipo_teste =
     bind (tipo_valido tipo_teste) (\<lambda>_.
     bind (validar_parametros (Some n1) (Some alpha) (Some sigma1)) (\<lambda>_.
     bind (validar_parametros (Some n2) (Some alpha) (Some sigma2)) (\<lambda>_.
       let z_calc = np_div (Fin (x1_barra - x2_barra)) (np_sqrt (sigma1\<^sup>2 / n1 + sigma2\<^sup>2 / n2));
           z_crit = critico_simetrico (norm_ppf Q) alpha tipo_teste
       in Inr [(''Tipo de Teste'', Txt tipo_teste),
               (''z_calculado'', Num z_calc),
               (''z_critico'', Num (Fin z_crit)),
               (''Nivel de Significancia (alpha)'', Num (Fin alpha))])))"

definition z_dif_proporcoes ::
  "quantiles \<Rightarrow> real \<Rightarrow> real \<Rightarrow> real \<Rightarrow> real \<Rightarrow> real \<Rightarrow> string \<Rightarrow> error + result" where
  "z_dif_proporcoes Q p1_hat p2_hat n1 n2 alpha tipo_teste =
     bind (tipo_valido tipo_teste) (\<lambda>_.
     bind (validar_parametros (Some n1) (Some alpha) None) (\<lambda>_.
     bind (validar_parametros (Some n2) (Some alpha) None) (\<lambda>_.
       if \<not> (0 \<le> p1_hat \<and> p1_hat \<le> 1) \<or> \<not> (0 \<le> p2_hat \<and> p2_hat \<le> 1)
       then Inl InvalidProportion
       else
         let f1 = p1_hat * n1;
             f2 = p2_hat * n2;
             p_combinada = (f1 + f2) / (n1 + n2);
             z_calc = np_div (Fin (p1_hat - p2_hat))
                        (np_sqrt (p_combinada * (1 - p_combinada) * (1 / n1 + 1 / n2)));
             z_crit = critico_simetrico (norm_ppf Q) alpha tipo_teste
         in Inr [(''Tipo de Teste'', Txt tipo_teste),
                 (''Proporcao Combinada (p)'', Num (Fin p_combinada)),
                 (''z_calculado'', Num z_calc),
                 (''z_critico'', Num (Fin z_crit)),
                 (''Nivel de Significancia (alpha)'', Num (Fin alpha))])))"

definition f_dif_variancias ::
  "quantiles \<Rightarrow> real \<Rightarrow> real \<Rightarrow> real \<Rightarrow> real \<Rightarrow> real \<Rightarrow> string \<Rightarrow> error + result" where
  "f_dif_variancias Q s1 s2 n1 n2 alpha tipo_teste =
     (if tipo_teste \<notin> set [''bilateral'', ''unilateral_dir''] then Inl InvalidTailTypeSelector
      else
        bind (validar_parametros (Some n1) (Some alpha) (Some s1)) (\<lambda>_.
        bind (validar_parametros (Some n2) (Some alpha) (Some s2)) (\<lambda>_.
          let gl1 = n1 - 1;
              gl2 = n2 - 1
          in bind (if tipo_teste = ''bilateral''
                   then
                     let s_max = max s1 s2;
                         s_min = min s1 s2
                     in bind (py_div (s_max\<^sup>2) (s_min\<^sup>2)) (\<lambda>f_calc.
                          if s1 > s2 then Inr (f_calc, f_ppf Q (1 - alpha / 2) gl1 gl2)
                          else Inr (f_calc, f_ppf Q (1 - alpha / 2) gl2 gl1))
                   else
                     bind (py_div (s1\<^sup>2) (s2\<^sup>2)) (\<lambda>f_calc.
                       Inr (f_calc, f_ppf Q (1 - alpha) gl1 gl2)))
               (\<lambda>(f_calc, f_crit).
                  Inr [(''Tipo de Teste'', Txt tipo_teste),
                       (''Graus de Liberdade 1 (gl1)'', Cnt (py_int gl1)),
                       (''Graus de Liberdade 2 (gl2)'', Cnt (py_int gl2)),
                       (''F_calculado'', Num (Fin f_calc)),
                       (''F_critico'', Num (Fin f_crit)),
                       (''Nivel de Significancia (alpha)'', Num (Fin alpha))]))))"

section \<open>calculate\_sample\_stats in double precision\<close>

text \<open>
  The definitions above read every arithmetic operation exactly. This section reads
  \<^verbatim>\<open>calculate_sample_stats\<close> once more with the arithmetic it runs on: every operation is
  followed by a rounding \<open>rnd\<close> of its exact result. With \<open>rnd = Fin\<close> nothing is rounded, and
  the function is \<open>calculate_sample_stats\<close> again (lemma \<open>exact_arithmetic_reading\<close>
  below); with \<open>rnd = f64_round\<close> it is the function on IEEE 754 doubles.

  \<open>f64_round\<close> rounds a real to the nearest double, ties to the even significand: the
  quantum of a number is \<open>2\<close> to its binary exponent minus 52, and never below \<open>2 powi - 1074\<close>,
  the quantum of the subnormal numbers; a result of magnitude \<open>2 ^ 1024\<close> or more is an
  overflow, \<open>NonFinite\<close>.
\<close>

definition f64_round :: "real \<Rightarrow> fl" where
  "f64_round x =
     (if x = 0 then Fin 0
      else
        let e = max (\<lfloor>log 2 \<bar>x\<bar>\<rfloor> - 52) (- 1074);
            r = of_int (round_half_even (x / 2 powi e)) * 2 powi e
        in if 2 ^ 1024 \<le> \<bar>r\<bar> then NonFinite else Fin r)"

definition fl_add :: "(real \<Rightarrow> fl) \<Rightarrow> fl \<Rightarrow> fl \<Rightarrow> fl" where
  "fl_add rnd a b = (case (a, b) of (Fin x, Fin y) \<Rightarrow> rnd (x + y) | _ \<Rightarrow> NonFinite)"

definition fl_sub :: "(real \<Rightarrow> fl) \<Rightarrow> fl \<Rightarrow> fl \<Rightarrow> fl" where
  "fl_sub rnd a b = (case (a, b) of (Fin x, Fin y) \<Rightarrow> rnd (x - y) | _ \<Rightarrow> NonFinite)"

definition fl_div_int :: "(real \<Rightarrow> fl) \<Rightarrow> fl \<Rightarrow> int \<Rightarrow> fl" where
  \<comment> \<open>a float divided by a positive int\<close>
  "fl_div_int rnd a n = (case a of Fin x \<Rightarrow> rnd (x / of_int n) | NonFinite \<Rightarrow> NonFinite)"

definition py_square :: "(real \<Rightarrow> fl) \<Rightarrow> fl \<Rightarrow> error + fl" where
  \<comment> \<open>\<^verbatim>\<open>a ** 2\<close> on a Python float raises \<^verbatim>\<open>OverflowError\<close> when the square of a finite
      number is out of range; the square of \<^verbatim>\<open>inf\<close> or \<^verbatim>\<open>nan\<close> is returned. The C
      library's \<^verbatim>\<open>pow\<close> is taken to round the exact square correctly.\<close>
  "py_square rnd a =
     (case a of
        Fin x \<Rightarrow> (case rnd (x * x) of Fin y \<Rightarrow> Inr (Fin y) | NonFinite \<Rightarrow> Inl OverflowError)
      | NonFinite \<Rightarrow> Inr NonFinite)"

definition np_sqrt_rnd :: "(real \<Rightarrow> fl) \<Rightarrow> fl \<Rightarrow> fl" where
  "np_sqrt_rnd rnd a =
     (case a of Fin x \<Rightarrow> if x < 0 then NonFinite else rnd (sqrt x) | NonFinite \<Rightarrow> NonFinite)"

text \<open>
  The builtin \<^verbatim>\<open>sum\<close> starts from the int 0, so its first step returns the first float as
  it is. CPython up to 3.11 then adds the floats from left to right; CPython from 3.12 on,
  which \<^verbatim>\<open>setup.py\<close> asks for (3.13), uses Neumaier's compensated summation: it keeps the
  rounding errors of the additions in \<open>c\<close> and adds \<open>c\<close> at the end when it is finite and not
  zero. Both are modelled. The comparison of magnitudes in the compensated sum is only read
  on finite operands: with a non-finite operand either branch makes \<open>c\<close> non-finite.
\<close>

datatype summation = LeftToRight | Compensated

fun left_to_right :: "(real \<Rightarrow> fl) \<Rightarrow> fl \<Rightarrow> fl list \<Rightarrow> fl" where
  "left_to_right rnd f_result [] = f_result"
| "left_to_right rnd f_result (x # xs) = left_to_right rnd (fl_add rnd f_result x) xs"

fun fabs_ge :: "fl \<Rightarrow> fl \<Rightarrow> bool" where
  "fabs_ge (Fin a) (Fin b) = (\<bar>b\<bar> \<le> \<bar>a\<bar>)"
| "fabs_ge _ _ = False"

fun neumaier :: "(real \<Rightarrow> fl) \<Rightarrow> fl \<Rightarrow> fl \<Rightarrow> fl list \<Rightarrow> fl" where
  "neumaier rnd f_result c [] =
     (if c \<noteq> Fin 0 \<and> c \<noteq> NonFinite then fl_add rnd f_result c else f_result)"
| "neumaier rnd f_result c (x # xs) =
     (let t = fl_add rnd f_result x;
          c' = (if fabs_ge f_result x
                then fl_add rnd c (fl_add rnd (fl_sub rnd f_result t) x)
                else fl_add rnd c (fl_add rnd (fl_sub rnd x t) f_result))
      in neumaier rnd t c' xs)"

definition py_sum :: "summation \<Rightarrow> (real \<Rightarrow> fl) \<Rightarrow> fl list \<Rightarrow> fl" where
  "py_sum how rnd xs =
     (case xs of
        [] \<Rightarrow> Fin 0
      | x # rest \<Rightarrow>
          (case how of
             LeftToRight \<Rightarrow> left_to_right rnd x rest
           | Compensated \<Rightarrow> neumaier rnd x (Fin 0) rest))"

fun squared_deviations :: "(real \<Rightarrow> fl) \<Rightarrow> fl \<Rightarrow> real list \<Rightarrow> error + fl list" where
  \<comment> \<open>the items \<^verbatim>\<open>(x - mean) ** 2\<close> of the generator, up to the first that raises\<close>
  "squared_deviations rnd mean [] = Inr []"
| "squared_deviations rnd mean (x # xs) =
     bind (py_square rnd (fl_sub rnd (Fin x) mean)) (\<lambda>q.
     bind (squared_deviations rnd mean xs) (\<lambda>qs. Inr (q # qs)))"

definition calculate_sample_stats_rnd ::
  "summation \<Rightarrow> (real \<Rightarrow> fl) \<Rightarrow> real list \<Rightarrow> error + (fl \<times> fl \<times> fl \<times> int)" where
  "calculate_sample_stats_rnd how rnd sample =
     (let n = int (length sample)
      in if n < 2 then Inl InsufficientSampleSize
         else
           let mean = fl_div_int rnd (py_sum how rnd (map Fin sample)) n
           in bind (squared_deviations rnd mean sample) (\<lambda>squares.
                let variance = fl_div_int rnd (py_sum how rnd squares) (n - 1);
                    std_dev = np_sqrt_rnd rnd variance
                in Inr (mean, variance, std_dev, n)))"

definition calculate_sample_stats_f64 ::
  "summation \<Rightarrow> real list \<Rightarrow> error + (fl \<times> fl \<times> fl \<times> int)" where
  \<comment> \<open>\<^verbatim>\<open>calculate_sample_stats\<close> on a sample of finite doubles\<close>
  "calculate_sample_stats_f64 how sample = calculate_sample_stats_rnd how f64_round sample"

section \<open>Reading a result\<close>

definition entry :: "error + result \<Rightarrow> string \<Rightarrow> val option" where
  \<comment> \<open>the value stored under a key, \<open>None\<close> when the procedure failed or the key is absent\<close>
  "entry out key = (case out of Inl e \<Rightarrow> None | Inr r \<Rightarrow> map_of r key)"

section \<open>Quantile functions for concrete instances\<close>

text \<open>
  The theorems below hold for every provider of quantile functions. Where a theorem is
  instantiated at concrete numbers, this provider is used: the Student-t quantile with two
  degrees of freedom, the chi-square quantile with two degrees of freedom and the F quantile
  with (2, 2) degrees of freedom have closed forms; the logistic quantile stands in for the
  normal one, which has none.
\<close>

definition example_quantiles :: quantiles where
  "example_quantiles =
     \<lparr> t_ppf = (\<lambda>p df. (2 * p - 1) / sqrt (2 * p * (1 - p))),
       norm_ppf = (\<lambda>p. ln (p / (1 - p))),
       chi2_ppf = (\<lambda>p df. - 2 * ln (1 - p)),
       f_ppf = (\<lambda>p df1 df2. p / (1 - p)) \<rparr>"

section \<open>Basic facts\<close>

lemma bind_Inr_iff: "bind m f = Inr r \<longleftrightarrow> (\<exists>x. m = Inr x \<and> f x = Inr r)"
  by (cases m) (simp_all add: bind_def)

lemma bind_Inl [simp]: "bind (Inl e) f = Inl e"
  by (simp add: bind_def)

lemma bind_Inr [simp]: "bind (Inr x) f = f x"
  by (simp add: bind_def)

lemma tipo_valido_dir [simp]: "tipo_valido ''unilateral_dir'' = Inr ()"
  and tipo_valido_esq [simp]: "tipo_valido ''unilateral_esq'' = Inr ()"
  and tipo_valido_bil [simp]: "tipo_valido ''bilateral'' = Inr ()"
  by (simp_all add: tipo_valido_def)

lemma critico_dir: "critico_simetrico ppf alpha ''unilateral_dir'' = ppf (1 - alpha)"
  and critico_esq: "critico_simetrico ppf alpha ''unilateral_esq'' = - ppf (1 - alpha)"
  and critico_bil: "critico_simetrico ppf alpha ''bilateral'' = ppf (1 - alpha / 2)"
  by (simp_all add: critico_simetrico_def)

section \<open>The sample summary\<close>

lemma squares_nonneg: "0 \<le> sum_list (map (\<lambda>x. (x - m)\<^sup>2) (xs :: real list))"
  by (rule sum_list_nonneg) auto

lemma stats_of_sample:
  assumes "2 \<le> length sample"
  shows "\<exists>mean variance std_dev.
           calculate_sample_stats sample = Inr (mean, variance, std_dev, int (length sample))
         \<and> mean = (\<Sum>i<length sample. sample ! i) / real (length sample)
         \<and> variance = (\<Sum>i<length sample. (sample ! i - mean)\<^sup>2) / (real (length sample) - 1)
         \<and> 0 \<le> std_dev \<and> std_dev\<^sup>2 = variance"
proof -
  have v: "0 \<le> sum_list (map (\<lambda>x. (x - m)\<^sup>2) sample) / (real (length sample) - 1)" for m
    using assms squares_nonneg [of m sample] by simp
  have s1: "sum_list sample = (\<Sum>i<length sample. sample ! i)"
    by (simp add: sum_list_sum_nth atLeast0LessThan)
  have s2: "sum_list (map (\<lambda>x. (x - m)\<^sup>2) sample) = (\<Sum>i<length sample. (sample ! i - m)\<^sup>2)"
    for m
    by (simp add: sum_list_sum_nth atLeast0LessThan)
  show ?thesis
    using assms v by (simp add: calculate_sample_stats_def Let_def s1 s2)
qed

lemma stats_of_constant_sample:
  assumes "2 \<le> length sample" and "\<forall>x\<in>set sample. x = c"
  shows "calculate_sample_stats sample = Inr (c, 0, 0, int (length sample))"
proof -
  have r: "sample = replicate (length sample) c"
    using assms(2) by (simp add: replicate_length_same)
  have s: "sum_list sample = real (length sample) * c"
    by (subst r) (simp add: sum_list_replicate)
  have m: "sum_list sample / real (length sample) = c"
    using assms(1) s by auto
  have z: "sum_list (map (\<lambda>x. (x - c)\<^sup>2) sample) = 0"
    by (subst r) (simp add: sum_list_replicate)
  show ?thesis
    using assms(1) by (simp add: calculate_sample_stats_def Let_def m z)
qed

lemma stats_of_short_sample:
  "length sample < 2 \<Longrightarrow> calculate_sample_stats sample = Inl InsufficientSampleSize"
  by (simp add: calculate_sample_stats_def)

text \<open>
  In exact arithmetic: for a sample of length at least 2, \<open>calculate_sample_stats\<close> returns
  the arithmetic mean, the sample variance with divisor \<open>n - 1\<close> and, as standard deviation,
  the non-negative square root of that variance, together with the length; for a sample of
  constant values the variance and the standard deviation are 0; for a sample of length
  below 2 it fails with the sample-size error. The sums are written over the indices of the
  sample, independently of the list sums of the definition.
\<close>

lemma exact_sample_stats_summary:
  "(2 \<le> length sample \<longrightarrow>
      (\<exists>mean variance std_dev.
         calculate_sample_stats sample = Inr (mean, variance, std_dev, int (length sample))
       \<and> mean = (\<Sum>i<length sample. sample ! i) / real (length sample)
       \<and> variance = (\<Sum>i<length sample. (sample ! i - mean)\<^sup>2) / (real (length sample) - 1)
       \<and> 0 \<le> std_dev \<and> std_dev\<^sup>2 = variance))
   \<and> (2 \<le> length sample \<and> (\<forall>x\<in>set sample. x = c) \<longrightarrow>
        calculate_sample_stats sample = Inr (c, 0, 0, int (length sample)))
   \<and> (length sample < 2 \<longrightarrow> calculate_sample_stats sample = Inl InsufficientSampleSize)"
  using stats_of_sample [of sample] stats_of_constant_sample [of sample c]
    stats_of_short_sample [of sample]
  by blast

section \<open>The sample summary in double precision\<close>

lemma round_half_even_of_int [simp]: "round_half_even (of_int z) = z"
  by (simp add: round_half_even_def)

lemma round_half_even_numeral [simp]: "round_half_even (numeral n) = numeral n"
  using round_half_even_of_int [of "numeral n"] by simp

lemma round_half_even_nonneg: "0 \<le> y \<Longrightarrow> 0 \<le> round_half_even y"
  by (auto simp add: round_half_even_def Let_def)

lemma round_half_even_ge_floor: "\<lfloor>y\<rfloor> \<le> round_half_even y"
  by (simp add: round_half_even_def Let_def)

lemma floor_log2_powi:
  assumes "0 < y" "2 powi k \<le> y" "y < 2 powi (k + 1)"
  shows "\<lfloor>log 2 y\<rfloor> = k"
proof -
  have "(2 :: real) powr real_of_int k = 2 powi k"
    and "(2 :: real) powr (real_of_int k + 1) = 2 powi (k + 1)"
    using powr_real_of_int' [of "2 :: real" k] powr_real_of_int' [of "2 :: real" "k + 1"]
    by simp_all
  then show ?thesis
    using assms by (simp add: floor_log_eq_powr_iff)
qed

lemma f64_round_at:
  assumes "x \<noteq> 0" "2 powi k \<le> \<bar>x\<bar>" "\<bar>x\<bar> < 2 powi (k + 1)"
  shows "f64_round x =
           (let e = max (k - 52) (- 1074);
                r = of_int (round_half_even (x / 2 powi e)) * 2 powi e
            in if 2 ^ 1024 \<le> \<bar>r\<bar> then NonFinite else Fin r)"
proof -
  have "\<lfloor>log 2 \<bar>x\<bar>\<rfloor> = k"
    using assms by (intro floor_log2_powi) simp_all
  then show ?thesis
    using assms(1) by (simp add: f64_round_def)
qed

lemma f64_round_exact:
  assumes "x = of_int z * 2 powi e" "\<bar>z\<bar> < 2 ^ 53" "- 1074 \<le> e" "\<bar>x\<bar> < 2 ^ 1024"
  shows "f64_round x = Fin x"
proof (cases "x = 0")
  case True
  then show ?thesis by (simp add: f64_round_def)
next
  case False
  define k where "k = \<lfloor>log 2 \<bar>x\<bar>\<rfloor>"
  define e' where "e' = max (k - 52) (- 1074)"
  have xpos: "0 < \<bar>x\<bar>" using False by simp
  have "\<bar>x\<bar> = \<bar>real_of_int z\<bar> * 2 powi e"
    using assms(1) by (simp add: abs_mult)
  also have "\<dots> < 2 ^ 53 * 2 powi e"
  proof -
    have "\<bar>real_of_int z\<bar> < 2 ^ 53"
      using assms(2) by (metis of_int_abs of_int_less_numeral_power_cancel_iff)
    then show ?thesis by (simp add: mult_strict_right_mono)
  qed
  also have "\<dots> = 2 powi (e + 53)"
    by (simp add: power_int_add)
  finally have ub: "\<bar>x\<bar> < 2 powi (e + 53)" .
  have "2 powr real_of_int k \<le> \<bar>x\<bar>"
    using xpos floor_log_eq_powr_iff [of "\<bar>x\<bar>" 2 k] by (simp add: k_def)
  then have lb: "2 powi k \<le> \<bar>x\<bar>"
    using powr_real_of_int' [of "2 :: real" k] by simp
  have "(2 :: real) powi k < 2 powi (e + 53)"
    using lb ub by linarith
  then have "k < e + 53"
    by (metis (no_types) linorder_not_less one_le_numeral power_int_increasing)
  then have le: "e' \<le> e"
    using assms(3) by (simp add: e'_def)
  define w where "w = z * 2 ^ nat (e - e')"
  have sp: "(2 :: real) powi e = 2 powi (e - e') * 2 powi e'"
    by (simp flip: power_int_add)
  have pw: "(2 :: real) powi (e - e') = 2 ^ nat (e - e')"
    using le by (simp add: power_int_def)
  have scaled: "x / 2 powi e' = of_int w"
    using assms(1) by (simp add: sp pw w_def)
  have unscaled: "of_int w * 2 powi e' = x"
    using assms(1) by (simp add: sp pw w_def)
  show ?thesis
    using False assms(4)
    by (simp add: f64_round_def Let_def flip: k_def e'_def) (simp add: scaled unscaled)
qed

lemma round_half_even_minus: "round_half_even (- y) = - round_half_even y"
proof (cases "y \<in> \<int>")
  case True
  then obtain z where "y = of_int z" by (auto elim: Ints_cases)
  then show ?thesis
    using round_half_even_of_int [of "- z"] by simp
next
  case False
  then have ne: "y \<noteq> of_int \<lfloor>y\<rfloor>"
    by (metis Ints_of_int)
  then have f: "\<lfloor>- y\<rfloor> = - \<lfloor>y\<rfloor> - 1"
    by (simp add: floor_minus ceiling_altdef)
  have d: "0 < y - of_int \<lfloor>y\<rfloor>" "y - of_int \<lfloor>y\<rfloor> < 1"
    using ne by linarith+
  show ?thesis
    using d by (auto simp add: round_half_even_def Let_def f)
qed

lemma round_half_even_near:
  assumes "of_int N - 1 / 2 < y" "y < of_int N + 1 / 2"
  shows "round_half_even y = N"
proof -
  have "\<lfloor>y\<rfloor> = N \<or> \<lfloor>y\<rfloor> = N - 1"
    using assms by linarith
  then show ?thesis
  proof
    assume "\<lfloor>y\<rfloor> = N"
    then show ?thesis
      using assms by (simp add: round_half_even_def Let_def)
  next
    assume "\<lfloor>y\<rfloor> = N - 1"
    then show ?thesis
      using assms by (simp add: round_half_even_def Let_def)
  qed
qed

lemma f64_round_zero [simp]: "f64_round 0 = Fin 0"
  by (simp add: f64_round_def)

lemma f64_round_minus:
  "f64_round (- x) = (case f64_round x of Fin r \<Rightarrow> Fin (- r) | NonFinite \<Rightarrow> NonFinite)"
  by (simp add: f64_round_def Let_def round_half_even_minus)

lemma f64_round_nonneg:
  assumes "0 \<le> x" "f64_round x = Fin r"
  shows "0 \<le> r"
proof (cases "x = 0")
  case True
  then show ?thesis using assms(2) by simp
next
  case False
  define e where "e = max (\<lfloor>log 2 \<bar>x\<bar>\<rfloor> - 52) (- 1074)"
  have "0 \<le> x / 2 powi e"
    using assms(1) by simp
  then have "0 \<le> round_half_even (x / 2 powi e)"
    by (rule round_half_even_nonneg)
  then have "0 \<le> real_of_int (round_half_even (x / 2 powi e)) * 2 powi e"
    by simp
  then show ?thesis
    using assms(2) False
    by (auto simp add: f64_round_def Let_def split: if_splits simp flip: e_def)
qed

lemma py_sum_exact: "py_sum how Fin (map Fin xs) = Fin (sum_list xs)"
proof -
  have l: "left_to_right Fin (Fin f) (map Fin ys) = Fin (f + sum_list ys)" for f ys
    by (induction ys arbitrary: f) (simp_all add: fl_add_def add.assoc)
  have n: "neumaier Fin (Fin f) (Fin 0) (map Fin ys) = Fin (f + sum_list ys)" for f ys
    by (induction ys arbitrary: f) (simp_all add: fl_add_def fl_sub_def Let_def add.assoc)
  show ?thesis
    by (cases xs; cases how) (simp_all add: py_sum_def l n)
qed

lemma squared_deviations_exact:
  "squared_deviations Fin (Fin m) xs = Inr (map (\<lambda>x. Fin ((x - m)\<^sup>2)) xs)"
  by (induction xs) (simp_all add: py_square_def fl_sub_def power2_eq_square)

text \<open>
  Without rounding, the function of this section is \<open>calculate_sample_stats\<close>, for either
  summation.
\<close>

lemma exact_arithmetic_reading:
  "calculate_sample_stats_rnd how Fin sample =
     (case calculate_sample_stats sample of
        Inl e \<Rightarrow> Inl e
      | Inr (mean, variance, std_dev, n) \<Rightarrow> Inr (Fin mean, Fin variance, Fin std_dev, n))"
proof -
  have m: "map (\<lambda>x. Fin ((x - a)\<^sup>2)) sample = map Fin (map (\<lambda>x. (x - a)\<^sup>2) sample)" for a
    by simp
  have v: "\<not> sum_list (map (\<lambda>x. (x - a)\<^sup>2) sample) / (real (length sample) - 1) < 0"
    if "2 \<le> length sample" for a
    using that squares_nonneg [of a sample] by (simp add: not_less)
  show ?thesis
    using v
    by (simp add: calculate_sample_stats_rnd_def calculate_sample_stats_def Let_def
        fl_div_int_def np_sqrt_rnd_def py_sum_exact squared_deviations_exact m
        del: map_map)
qed

text \<open>
  The double nearest to 0.1 is \<open>3602879701896397 / 2 ^ 55\<close>. The roundings below are those
  that \<open>calculate_sample_stats\<close> meets on the sample of three such values.
\<close>

lemma tenth_is_double: "f64_round (1 / 10) = Fin (3602879701896397 / 2 ^ 55)"
  by (subst f64_round_at [of _ "- 4"]) (simp_all add: round_half_even_def Let_def)

lemma tenth_twice: "f64_round (3602879701896397 / 2 ^ 55 + 3602879701896397 / 2 ^ 55)
    = Fin (3602879701896397 / 2 ^ 54)"
  by (subst f64_round_exact [of _ 3602879701896397 "- 54"]) simp_all

lemma tenth_thrice: "f64_round (3602879701896397 / 2 ^ 54 + 3602879701896397 / 2 ^ 55)
    = Fin (5404319552844596 / 2 ^ 54)"
  by (subst f64_round_at [of _ "- 2"]) (simp_all add: round_half_even_def Let_def)

lemma tenth_error: "f64_round (3602879701896397 / 2 ^ 54 - 5404319552844596 / 2 ^ 54)
    = Fin (- (1801439850948199 / 2 ^ 54))"
  by (subst f64_round_exact [of _ "- 1801439850948199" "- 54"]) simp_all

lemma tenth_compensation:
  "f64_round (- (1801439850948199 / 2 ^ 54) + 3602879701896397 / 2 ^ 55) = Fin (- (1 / 2 ^ 55))"
  "f64_round (0 + - (1 / 2 ^ 55)) = Fin (- (1 / 2 ^ 55))"
  by (subst f64_round_exact [of _ "- 1" "- 55"]; simp)+

lemma tenth_compensated: "f64_round (5404319552844596 / 2 ^ 54 + - (1 / 2 ^ 55))
    = Fin (5404319552844596 / 2 ^ 54)"
  by (subst f64_round_at [of _ "- 2"]) (simp_all add: round_half_even_def Let_def)

lemma tenth_mean: "f64_round (5404319552844596 / 2 ^ 54 / real_of_int 3)
    = Fin (7205759403792795 / 2 ^ 56)"
  by (subst f64_round_at [of _ "- 4"]) (simp_all add: round_half_even_def Let_def)

lemma tenth_deviation: "f64_round (3602879701896397 / 2 ^ 55 - 7205759403792795 / 2 ^ 56)
    = Fin (- (1 / 2 ^ 56))"
  by (subst f64_round_exact [of _ "- 1" "- 56"]) simp_all

lemma tenth_square: "f64_round (- (1 / 2 ^ 56) * - (1 / 2 ^ 56)) = Fin (1 / 2 ^ 112)"
  by (subst f64_round_exact [of _ 1 "- 112"]) simp_all

lemma tenth_back:
  "f64_round (3602879701896397 / 2 ^ 55 - 3602879701896397 / 2 ^ 54)
     = Fin (- (3602879701896397 / 2 ^ 55))"
  "f64_round (- (3602879701896397 / 2 ^ 55) + 3602879701896397 / 2 ^ 55) = Fin 0"
  "f64_round (0 + 0) = Fin 0"
proof -
  show "f64_round (3602879701896397 / 2 ^ 55 - 3602879701896397 / 2 ^ 54)
     = Fin (- (3602879701896397 / 2 ^ 55))"
    by (subst f64_round_exact [of _ "- 3602879701896397" "- 55"]) simp_all
qed simp_all

lemma tenth_magnitudes:
  "fabs_ge (Fin (3602879701896397 / 2 ^ 55)) (Fin (3602879701896397 / 2 ^ 55))"
  "fabs_ge (Fin (3602879701896397 / 2 ^ 54)) (Fin (3602879701896397 / 2 ^ 55))"
  "Fin (- (1 / 2 ^ 55)) \<noteq> Fin 0"
  by simp_all

lemma sum_of_tenths:
  "py_sum how f64_round
     [Fin (3602879701896397 / 2 ^ 55), Fin (3602879701896397 / 2 ^ 55),
      Fin (3602879701896397 / 2 ^ 55)]
   = Fin (5404319552844596 / 2 ^ 54)"
proof (cases how)
  case LeftToRight
  then show ?thesis
    by (simp only: py_sum_def list.case summation.case left_to_right.simps fl_add_def
        prod.case fl.case tenth_twice tenth_thrice)
next
  case Compensated
  then show ?thesis
    by (simp only: py_sum_def list.case summation.case neumaier.simps fl_add_def fl_sub_def
        prod.case fl.case Let_def tenth_twice tenth_thrice tenth_error tenth_compensation
        tenth_compensated tenth_back tenth_magnitudes if_True fl.distinct simp_thms)
qed

lemma mean_of_tenths:
  "fl_div_int f64_round (Fin (5404319552844596 / 2 ^ 54)) 3 = Fin (7205759403792795 / 2 ^ 56)"
  by (simp only: fl_div_int_def fl.case tenth_mean)

lemma squares_of_tenths:
  "squared_deviations f64_round (Fin (7205759403792795 / 2 ^ 56))
     [3602879701896397 / 2 ^ 55, 3602879701896397 / 2 ^ 55, 3602879701896397 / 2 ^ 55]
   = Inr [Fin (1 / 2 ^ 112), Fin (1 / 2 ^ 112), Fin (1 / 2 ^ 112)]"
  by (simp only: squared_deviations.simps fl_sub_def py_square_def prod.case fl.case
      tenth_deviation tenth_square bind_Inr)

lemma tiny_roundings:
  "f64_round (1 / 2 ^ 112 + 1 / 2 ^ 112) = Fin (1 / 2 ^ 111)"
  "f64_round (1 / 2 ^ 111 + 1 / 2 ^ 112) = Fin (3 / 2 ^ 112)"
  "f64_round (1 / 2 ^ 112 - 1 / 2 ^ 111) = Fin (- (1 / 2 ^ 112))"
  "f64_round (- (1 / 2 ^ 112) + 1 / 2 ^ 112) = Fin 0"
  "f64_round (1 / 2 ^ 111 - 3 / 2 ^ 112) = Fin (- (1 / 2 ^ 112))"
  "f64_round (3 / 2 ^ 112 / real_of_int 2) = Fin (3 / 2 ^ 113)"
proof -
  show "f64_round (1 / 2 ^ 112 + 1 / 2 ^ 112) = Fin (1 / 2 ^ 111)"
    by (subst f64_round_exact [of _ 1 "- 111"]) simp_all
  show "f64_round (1 / 2 ^ 111 + 1 / 2 ^ 112) = Fin (3 / 2 ^ 112)"
    by (subst f64_round_exact [of _ 3 "- 112"]) simp_all
  show "f64_round (1 / 2 ^ 112 - 1 / 2 ^ 111) = Fin (- (1 / 2 ^ 112))"
    by (subst f64_round_exact [of _ "- 1" "- 112"]) simp_all
  show "f64_round (- (1 / 2 ^ 112) + 1 / 2 ^ 112) = Fin 0"
    by simp
  show "f64_round (1 / 2 ^ 111 - 3 / 2 ^ 112) = Fin (- (1 / 2 ^ 112))"
    by (subst f64_round_exact [of _ "- 1" "- 112"]) simp_all
  show "f64_round (3 / 2 ^ 112 / real_of_int 2) = Fin (3 / 2 ^ 113)"
    by (subst f64_round_exact [of _ 3 "- 113"]) simp_all
qed

lemma tiny_magnitudes:
  "fabs_ge (Fin (1 / 2 ^ 112)) (Fin (1 / 2 ^ 112))"
  "fabs_ge (Fin (1 / 2 ^ 111)) (Fin (1 / 2 ^ 112))"
  by simp_all

lemma sum_of_squares_of_tenths:
  "py_sum how f64_round [Fin (1 / 2 ^ 112), Fin (1 / 2 ^ 112), Fin (1 / 2 ^ 112)]
   = Fin (3 / 2 ^ 112)"
proof (cases how)
  case LeftToRight
  then show ?thesis
    by (simp only: py_sum_def list.case summation.case left_to_right.simps fl_add_def
        prod.case fl.case tiny_roundings)
next
  case Compensated
  then show ?thesis
    by (simp only: py_sum_def list.case summation.case neumaier.simps fl_add_def fl_sub_def
        prod.case fl.case Let_def tiny_roundings tiny_magnitudes tenth_back(3) if_True
        simp_thms if_False)
qed

lemma variance_of_tenths:
  "fl_div_int f64_round (Fin (3 / 2 ^ 112)) 2 = Fin (3 / 2 ^ 113)"
  by (simp only: fl_div_int_def fl.case tiny_roundings)

lemma deviation_of_tenths:
  "np_sqrt_rnd f64_round (Fin (3 / 2 ^ 113)) = Fin (2757880273211543 / 2 ^ 107)"
proof -
  define s :: real where "s = sqrt (3 / 2 ^ 113)"
  have pos: "0 < s"
    by (simp add: s_def)
  have "(s * 2 ^ 108)\<^sup>2 = 3 * 2 ^ 103"
    by (simp add: s_def power_mult_distrib)
  then have sq: "sqrt (3 * 2 ^ 103) = s * 2 ^ 108"
    using pos by (metis abs_of_pos mult_pos_pos real_sqrt_abs zero_less_numeral zero_less_power)
  have "(5515760546423086 - 1 / 2 :: real) < sqrt (3 * 2 ^ 103)"
    by (rule real_less_rsqrt) (simp add: power2_eq_square)
  then have lo: "real_of_int 5515760546423086 - 1 / 2 < s * 2 ^ 108"
    unfolding sq by simp
  have "sqrt (3 * 2 ^ 103) < (5515760546423086 + 1 / 2 :: real)"
    by (rule real_less_lsqrt) (simp_all add: power2_eq_square)
  then have hi: "s * 2 ^ 108 < real_of_int 5515760546423086 + 1 / 2"
    unfolding sq by simp
  have r: "round_half_even (s * 2 ^ 108) = 5515760546423086"
    by (rule round_half_even_near [OF lo hi])
  have k1: "2 powi (- 56) \<le> \<bar>s\<bar>" and k2: "\<bar>s\<bar> < 2 powi (- 56 + 1)"
    using lo hi pos by (simp_all add: field_simps)
  have "f64_round s = Fin (2757880273211543 / 2 ^ 107)"
    using pos r by (subst f64_round_at [OF _ k1 k2]) (simp_all add: Let_def field_simps)
  then show ?thesis
    by (simp add: np_sqrt_rnd_def s_def)
qed

lemma stats_of_three:
  "calculate_sample_stats_rnd how rnd [a, b, c] =
     bind (squared_deviations rnd (fl_div_int rnd (py_sum how rnd [Fin a, Fin b, Fin c]) 3)
             [a, b, c])
       (\<lambda>squares.
          Inr (fl_div_int rnd (py_sum how rnd [Fin a, Fin b, Fin c]) 3,
               fl_div_int rnd (py_sum how rnd squares) 2,
               np_sqrt_rnd rnd (fl_div_int rnd (py_sum how rnd squares) 2),
               3))"
  by (simp add: calculate_sample_stats_rnd_def Let_def)

lemma stats_of_two:
  "calculate_sample_stats_rnd how rnd [a, b] =
     bind (squared_deviations rnd (fl_div_int rnd (py_sum how rnd [Fin a, Fin b]) 2) [a, b])
       (\<lambda>squares.
          Inr (fl_div_int rnd (py_sum how rnd [Fin a, Fin b]) 2,
               fl_div_int rnd (py_sum how rnd squares) 1,
               np_sqrt_rnd rnd (fl_div_int rnd (py_sum how rnd squares) 1),
               2))"
  by (simp add: calculate_sample_stats_rnd_def Let_def)

lemma stats_of_tenths:
  "calculate_sample_stats_f64 how
     [3602879701896397 / 2 ^ 55, 3602879701896397 / 2 ^ 55, 3602879701896397 / 2 ^ 55]
   = Inr (Fin (7205759403792795 / 2 ^ 56), Fin (3 / 2 ^ 113),
          Fin (2757880273211543 / 2 ^ 107), 3)"
  by (simp only: calculate_sample_stats_f64_def stats_of_three sum_of_tenths mean_of_tenths
      squares_of_tenths sum_of_squares_of_tenths variance_of_tenths deviation_of_tenths
      bind_Inr)

lemma huge_roundings:
  "f64_round (2 ^ 600 + - (2 ^ 600)) = Fin 0"
  "f64_round (2 ^ 600 - 0) = Fin (2 ^ 600)"
  "f64_round (0 / real_of_int 2) = Fin 0"
  "f64_round (2 ^ 600 * 2 ^ 600) = NonFinite"
proof -
  show "f64_round (2 ^ 600 - 0) = Fin (2 ^ 600)"
    by (subst f64_round_exact [of _ 1 600]) simp_all
  show "f64_round (2 ^ 600 * 2 ^ 600) = NonFinite"
    by (subst f64_round_at [of _ 1200]) (simp_all add: Let_def)
qed simp_all

lemma huge_magnitudes: "fabs_ge (Fin (2 ^ 600)) (Fin (- (2 ^ 600)))"
  by simp

lemma sum_of_huge: "py_sum how f64_round [Fin (2 ^ 600), Fin (- (2 ^ 600))] = Fin 0"
proof (cases how)
  case LeftToRight
  then show ?thesis
    by (simp only: py_sum_def list.case summation.case left_to_right.simps fl_add_def
        prod.case fl.case huge_roundings)
next
  case Compensated
  then show ?thesis
    by (simp only: py_sum_def list.case summation.case neumaier.simps fl_add_def fl_sub_def
        prod.case fl.case Let_def huge_roundings huge_magnitudes tenth_back(3) if_True
        simp_thms if_False)
qed

lemma stats_of_huge:
  "calculate_sample_stats_f64 how [2 ^ 600, - (2 ^ 600)] = Inl OverflowError"
  by (simp only: calculate_sample_stats_f64_def stats_of_two sum_of_huge fl_div_int_def
      fl.case huge_roundings squared_deviations.simps fl_sub_def py_square_def prod.case
      bind_Inl)

lemma sum_of_zeros: "py_sum how f64_round (replicate k (Fin 0)) = Fin 0"
proof -
  have l: "left_to_right f64_round (Fin 0) (replicate j (Fin 0)) = Fin 0" for j
    by (induction j) (simp_all add: fl_add_def)
  have n: "neumaier f64_round (Fin 0) (Fin 0) (replicate j (Fin 0)) = Fin 0" for j
    by (induction j) (simp_all add: fl_add_def fl_sub_def Let_def)
  show ?thesis
    by (cases k; cases how) (simp_all add: py_sum_def l n)
qed

lemma squared_deviations_of_constant:
  "squared_deviations f64_round (Fin c) (replicate k c) = Inr (replicate k (Fin 0))"
  by (induction k) (simp_all add: fl_sub_def py_square_def)

lemma squared_deviations_error:
  "squared_deviations rnd mean xs = Inl e \<Longrightarrow> e = OverflowError"
proof (induction xs arbitrary: e)
  case Nil
  then show ?case by simp
next
  case (Cons x xs)
  then show ?case
    by (auto simp add: bind_def py_square_def split: sum.splits fl.splits)
qed

lemma stats_f64_short:
  "length sample < 2 \<Longrightarrow> calculate_sample_stats_f64 how sample = Inl InsufficientSampleSize"
  by (simp add: calculate_sample_stats_f64_def calculate_sample_stats_rnd_def)

lemma stats_f64_returns_or_overflows:
  assumes "2 \<le> length sample"
  shows "(\<exists>r. calculate_sample_stats_f64 how sample = Inr r)
         \<or> calculate_sample_stats_f64 how sample = Inl OverflowError"
proof (cases "squared_deviations f64_round
    (fl_div_int f64_round (py_sum how f64_round (map Fin sample)) (int (length sample))) sample")
  case (Inl e)
  then have "e = OverflowError"
    by (rule squared_deviations_error)
  then show ?thesis
    using assms Inl
    by (simp add: calculate_sample_stats_f64_def calculate_sample_stats_rnd_def Let_def)
next
  case (Inr sq)
  then show ?thesis
    using assms
    by (simp add: calculate_sample_stats_f64_def calculate_sample_stats_rnd_def Let_def)
qed

lemma stats_f64_structure:
  assumes "calculate_sample_stats_f64 how sample = Inr (mean, variance, std_dev, n)"
  shows "2 \<le> length sample" and "n = int (length sample)"
    and "mean = fl_div_int f64_round (py_sum how f64_round (map Fin sample)) n"
    and "\<exists>squares. squared_deviations f64_round mean sample = Inr squares
           \<and> variance = fl_div_int f64_round (py_sum how f64_round squares) (n - 1)"
    and "std_dev = np_sqrt_rnd f64_round variance"
    and "\<forall>s. std_dev = Fin s \<longrightarrow> 0 \<le> s"
proof -
  show l: "2 \<le> length sample"
    using assms
    by (auto simp add: calculate_sample_stats_f64_def calculate_sample_stats_rnd_def Let_def
        split: if_splits)
  obtain sq where sq: "squared_deviations f64_round
      (fl_div_int f64_round (py_sum how f64_round (map Fin sample)) (int (length sample)))
      sample = Inr sq"
    and r: "(mean, variance, std_dev, n)
      = (fl_div_int f64_round (py_sum how f64_round (map Fin sample)) (int (length sample)),
         fl_div_int f64_round (py_sum how f64_round sq) (int (length sample) - 1),
         np_sqrt_rnd f64_round
           (fl_div_int f64_round (py_sum how f64_round sq) (int (length sample) - 1)),
         int (length sample))"
    using assms l
    by (auto simp add: calculate_sample_stats_f64_def calculate_sample_stats_rnd_def Let_def
        bind_Inr_iff)
  show "n = int (length sample)"
    and "mean = fl_div_int f64_round (py_sum how f64_round (map Fin sample)) n"
    and sd: "std_dev = np_sqrt_rnd f64_round variance"
    using r by simp_all
  show "\<exists>squares. squared_deviations f64_round mean sample = Inr squares
           \<and> variance = fl_div_int f64_round (py_sum how f64_round squares) (n - 1)"
    using r sq by auto
  have "0 \<le> s" if "f64_round (sqrt v) = Fin s" "\<not> v < 0" for v s
    using that f64_round_nonneg [of "sqrt v" s] by simp
  then show "\<forall>s. std_dev = Fin s \<longrightarrow> 0 \<le> s"
    unfolding sd
    by (auto simp add: np_sqrt_rnd_def split: fl.splits if_splits)
qed

lemma stats_f64_constant:
  assumes "2 \<le> length sample" and "\<forall>x\<in>set sample. x = c"
    and "fl_div_int f64_round (py_sum how f64_round (map Fin sample)) (int (length sample))
           = Fin c"
  shows "calculate_sample_stats_f64 how sample = Inr (Fin c, Fin 0, Fin 0, int (length sample))"
proof -
  have r: "sample = replicate (length sample) c"
    using assms(2) by (simp add: replicate_length_same)
  have sq: "squared_deviations f64_round (Fin c) sample = Inr (replicate (length sample) (Fin 0))"
    by (subst r) (simp add: squared_deviations_of_constant)
  have z: "fl_div_int f64_round (Fin 0) k = Fin 0" for k
    by (simp add: fl_div_int_def)
  show ?thesis
    using assms(1)
    by (simp add: calculate_sample_stats_f64_def calculate_sample_stats_rnd_def Let_def
        assms(3) sq sum_of_zeros z np_sqrt_rnd_def)
qed

lemma stats_f64_pair:
  assumes "f64_round c = Fin c" and "f64_round (c + c) = Fin (c + c)"
  shows "calculate_sample_stats_f64 how [c, c] = Inr (Fin c, Fin 0, Fin 0, 2)"
proof -
  have m: "f64_round (- c) = Fin (- c)"
    by (simp add: f64_round_minus assms(1))
  have d: "f64_round (2 * c) = Fin (2 * c)"
    using assms(2) by simp
  have "py_sum how f64_round [Fin c, Fin c] = Fin (c + c)"
    by (cases how) (simp_all add: py_sum_def fl_add_def fl_sub_def Let_def assms(1) d m)
  then have "fl_div_int f64_round (py_sum how f64_round (map Fin [c, c])) (int (length [c, c]))
      = Fin c"
    by (simp add: fl_div_int_def assms(1))
  then show ?thesis
    using stats_f64_constant [of "[c, c]" c how] by simp
qed


lemma five_is_double: "f64_round 5 = Fin 5" "f64_round (5 + 5) = Fin (5 + 5)"
proof -
  show "f64_round 5 = Fin 5"
    by (subst f64_round_exact [of _ 5 0]) simp_all
  show "f64_round (5 + 5) = Fin (5 + 5)"
    by (subst f64_round_exact [of _ 10 0]) simp_all
qed



section \<open>The two input modes of hypothesis\_calc.py\<close>

lemma mean_unknown_variance_modes:
  assumes "calculate_sample_stats xs = Inr (m1, v1, sd1, k1)"
  shows "test_mean_unknown_variance Q None None None mu_0 alpha (Some xs)
           = test_mean_unknown_variance Q (Some m1) (Some sd1) (Some k1) mu_0 alpha None"
  using assms by (simp add: test_mean_unknown_variance_def)

lemma diff_means_equal_variances_modes:
  assumes "calculate_sample_stats xs = Inr (m1, v1, sd1, k1)"
    and "calculate_sample_stats ys = Inr (m2, v2, sd2, k2)"
  shows "test_diff_means_equal_variances Q None None None None None None alpha (Some xs) (Some ys)
           = test_diff_means_equal_variances Q (Some m1) (Some m2) (Some v1) (Some v2)
               (Some k1) (Some k2) alpha None None"
  using assms by (simp add: test_diff_means_equal_variances_def two_samples_def)

lemma diff_means_welch_modes:
  assumes "calculate_sample_stats xs = Inr (m1, v1, sd1, k1)"
    and "calculate_sample_stats ys = Inr (m2, v2, sd2, k2)"
  shows "test_diff_means_welch Q None None None None None None alpha (Some xs) (Some ys)
           = test_diff_means_welch Q (Some m1) (Some m2) (Some v1) (Some v2)
               (Some k1) (Some k2) alpha None None"
  using assms by (simp add: test_diff_means_welch_def two_samples_def)

lemma paired_samples_modes:
  assumes "calculate_sample_stats xs = Inr (m1, v1, sd1, k1)"
  shows "test_paired_samples Q None None None delta alpha (Some xs)
           = test_paired_samples Q (Some m1) (Some sd1) (Some k1) delta alpha None"
  using assms by (simp add: test_paired_samples_def)

lemma mean_known_variance_modes:
  assumes "calculate_sample_stats xs = Inr (m1, v1, sd1, k1)"
  shows "test_mean_known_variance Q None sigma None mu_0 alpha (Some xs)
           = test_mean_known_variance Q (Some m1) sigma (Some k1) mu_0 alpha None"
proof -
  have "py_div (sum_list xs) (real (length xs)) = Inr m1" and "k1 = int (length xs)"
    using assms
    by (auto simp add: calculate_sample_stats_def py_div_def Let_def split: if_splits)
  then show ?thesis
    by (simp add: test_mean_known_variance_def)
qed

lemma variance_modes:
  assumes "calculate_sample_stats xs = Inr (m1, v1, sd1, k1)"
  shows "test_variance Q None sigma_0_sq None alpha (Some xs)
           = test_variance Q (Some v1) sigma_0_sq (Some k1) alpha None"
  using assms by (simp add: test_variance_def)

lemma diff_variances_modes:
  assumes "calculate_sample_stats xs = Inr (m1, v1, sd1, k1)"
    and "calculate_sample_stats ys = Inr (m2, v2, sd2, k2)"
  shows "test_diff_variances Q None None None None alpha (Some xs) (Some ys)
           = test_diff_variances Q (Some v1) (Some v2) (Some k1) (Some k2) alpha None None"
  using assms by (simp add: test_diff_variances_def two_samples_def)

text \<open>
  Claim C1. Seven procedures of \<^verbatim>\<open>hypothesis_calc.py\<close> take either samples or summary
  statistics. For samples of length at least 2, the call with the samples alone returns
  the same outcome (the same result mapping, or the same error) as the call with the mean,
  variance, standard deviation and count that \<open>calculate_sample_stats\<close> computes from them,
  whatever the significance level and the hypothesised parameters are. The known-variance
  test takes from the sample its mean and count only.
\<close>

theorem raw_mode_equals_summary_mode:
  assumes "2 \<le> length xs" and "2 \<le> length ys"
    and "calculate_sample_stats xs = Inr (m1, v1, sd1, k1)"
    and "calculate_sample_stats ys = Inr (m2, v2, sd2, k2)"
  shows "test_mean_unknown_variance Q None None None mu_0 alpha (Some xs)
           = test_mean_unknown_variance Q (Some m1) (Some sd1) (Some k1) mu_0 alpha None
       \<and> test_diff_means_equal_variances Q None None None None None None alpha (Some xs) (Some ys)
           = test_diff_means_equal_variances Q (Some m1) (Some m2) (Some v1) (Some v2)
               (Some k1) (Some k2) alpha None None
       \<and> test_diff_means_welch Q None None None None None None alpha (Some xs) (Some ys)
           = test_diff_means_welch Q (Some m1) (Some m2) (Some v1) (Some v2)
               (Some k1) (Some k2) alpha None None
       \<and> test_paired_samples Q None None None delta alpha (Some xs)
           = test_paired_samples Q (Some m1) (Some sd1) (Some k1) delta alpha None
       \<and> test_mean_known_variance Q None sigma None mu_0 alpha (Some xs)
           = test_mean_known_variance Q (Some m1) sigma (Some k1) mu_0 alpha None
       \<and> test_variance Q None sigma_0_sq None alpha (Some xs)
           = test_variance Q (Some v1) sigma_0_sq (Some k1) alpha None
       \<and> test_diff_variances Q None None None None alpha (Some xs) (Some ys)
           = test_diff_variances Q (Some v1) (Some v2) (Some k1) (Some k2) alpha None None"
  using mean_unknown_variance_modes [OF assms(3)]
    diff_means_equal_variances_modes [OF assms(3,4)]
    diff_means_welch_modes [OF assms(3,4)]
    paired_samples_modes [OF assms(3)]
    mean_known_variance_modes [OF assms(3)]
    variance_modes [OF assms(3)]
    diff_variances_modes [OF assms(3,4)]
  by blast

theorem raw_mode_equals_summary_mode_witness:
  "2 \<le> length [1, 2, 3 :: real] \<and> 2 \<le> length [2, 4, 6 :: real]
   \<and> calculate_sample_stats [1, 2, 3] = Inr (2, 1, 1, 3)
   \<and> calculate_sample_stats [2, 4, 6] = Inr (4, 4, 2, 3)
   \<and> test_mean_unknown_variance example_quantiles None None None (Some 1) (Some (1 / 20))
        (Some [1, 2, 3])
      = test_mean_unknown_variance example_quantiles (Some 2) (Some 1) (Some 3) (Some 1)
          (Some (1 / 20)) None
   \<and> test_diff_means_welch example_quantiles None None None None None None (Some (1 / 20))
        (Some [1, 2, 3]) (Some [2, 4, 6])
      = test_diff_means_welch example_quantiles (Some 2) (Some 4) (Some 1) (Some 4)
          (Some 3) (Some 3) (Some (1 / 20)) None None
   \<and> test_variance example_quantiles None (Some 2) None (Some (1 / 20)) (Some [1, 2, 3])
      = test_variance example_quantiles (Some 1) (Some 2) (Some 3) (Some (1 / 20)) None"
proof -
  have a: "calculate_sample_stats [1, 2, 3] = Inr (2, 1, 1, 3)"
    by (simp add: calculate_sample_stats_def)
  have b: "calculate_sample_stats [2, 4, 6] = Inr (4, 4, 2, 3)"
    by (simp add: calculate_sample_stats_def)
  have l: "2 \<le> length [1, 2, 3 :: real]" "2 \<le> length [2, 4, 6 :: real]"
    by simp_all
  show ?thesis
    using a b l
      raw_mode_equals_summary_mode [OF l a b, of example_quantiles "Some 1" "Some (1 / 20)"
        0 None "Some 2"]
    by simp
qed

section \<open>Samples and summary statistics given together\<close>

text \<open>
  Claim C9. When a sample is given together with summary arguments, the summary arguments
  are overwritten by the statistics of the sample: the outcome is that of the call with the
  sample alone. The two-sample procedures do so when both samples are given. The
  known-variance test overwrites the mean and the count; its population standard deviation
  is a parameter of both calls.
\<close>

theorem sample_overrides_summary:
  "test_mean_unknown_variance Q x_bar s n mu_0 alpha (Some xs)
     = test_mean_unknown_variance Q None None None mu_0 alpha (Some xs)
   \<and> test_diff_means_equal_variances Q x_bar_1 x_bar_2 s_sq_1 s_sq_2 n_1 n_2 alpha
        (Some xs) (Some ys)
     = test_diff_means_equal_variances Q None None None None None None alpha (Some xs) (Some ys)
   \<and> test_diff_means_welch Q x_bar_1 x_bar_2 s_sq_1 s_sq_2 n_1 n_2 alpha (Some xs) (Some ys)
     = test_diff_means_welch Q None None None None None None alpha (Some xs) (Some ys)
   \<and> test_paired_samples Q x_bar s n delta alpha (Some xs)
     = test_paired_samples Q None None None delta alpha (Some xs)
   \<and> test_mean_known_variance Q x_bar sigma n mu_0 alpha (Some xs)
     = test_mean_known_variance Q None sigma None mu_0 alpha (Some xs)
   \<and> test_variance Q s_sq_1 sigma_0_sq n alpha (Some xs)
     = test_variance Q None sigma_0_sq None alpha (Some xs)
   \<and> test_diff_variances Q s_sq_1 s_sq_2 n_1 n_2 alpha (Some xs) (Some ys)
     = test_diff_variances Q None None None None alpha (Some xs) (Some ys)"
  by (simp add: test_mean_unknown_variance_def test_diff_means_equal_variances_def
      test_diff_means_welch_def test_paired_samples_def test_mean_known_variance_def
      test_variance_def test_diff_variances_def two_samples_def)

theorem sample_overrides_summary_witness:
  "test_mean_unknown_variance example_quantiles (Some 100) (Some 7) (Some 40) (Some 1)
      (Some (1 / 20)) (Some [1, 2, 3])
     = test_mean_unknown_variance example_quantiles None None None (Some 1) (Some (1 / 20))
         (Some [1, 2, 3])
   \<and> test_diff_variances example_quantiles (Some 9) (Some 16) (Some 30) (Some 40)
        (Some (1 / 20)) (Some [1, 2, 3]) (Some [2, 4, 6])
     = test_diff_variances example_quantiles None None None None (Some (1 / 20))
         (Some [1, 2, 3]) (Some [2, 4, 6])"
  using sample_overrides_summary [of example_quantiles "Some 100" "Some 7" "Some 40" "Some 1"
      "Some (1 / 20)" "[1, 2, 3]" None None "Some 9" "Some 16" "Some 30" "Some 40"
      "[2, 4, 6]" 0 None None]
  by simp

text \<open>
  A two-sample procedure that is given one sample only ignores it and reads the summary
  arguments.
\<close>

lemma single_sample_is_ignored:
  "test_diff_means_equal_variances Q x_bar_1 x_bar_2 s_sq_1 s_sq_2 n_1 n_2 alpha (Some xs) None
     = test_diff_means_equal_variances Q x_bar_1 x_bar_2 s_sq_1 s_sq_2 n_1 n_2 alpha None None"
  "test_diff_means_welch Q x_bar_1 x_bar_2 s_sq_1 s_sq_2 n_1 n_2 alpha None (Some ys)
     = test_diff_means_welch Q x_bar_1 x_bar_2 s_sq_1 s_sq_2 n_1 n_2 alpha None None"
  "test_diff_variances Q s_sq_1 s_sq_2 n_1 n_2 alpha (Some xs) None
     = test_diff_variances Q s_sq_1 s_sq_2 n_1 n_2 alpha None None"
  by (simp_all add: test_diff_means_equal_variances_def test_diff_means_welch_def
      test_diff_variances_def two_samples_def)

section \<open>Lower-tailed critical values of the t and z procedures\<close>

lemma t_media_var_desconhecida_flip:
  assumes "t_media_var_desconhecida Q x_barra mu_0 s n alpha ''unilateral_dir'' = Inr r"
  shows "\<exists>r'. t_media_var_desconhecida Q x_barra mu_0 s n alpha ''unilateral_esq'' = Inr r'
           \<and> map_of r ''t_critico'' = Some (Num (Fin (t_ppf Q (1 - alpha) (n - 1))))
           \<and> map_of r' ''t_critico'' = Some (Num (Fin (- t_ppf Q (1 - alpha) (n - 1))))"
  using assms
  by (auto simp add: t_media_var_desconhecida_def bind_Inr_iff critico_dir critico_esq Let_def)

lemma z_media_var_conhecida_flip:
  assumes "z_media_var_conhecida Q x_barra mu_0 s n alpha ''unilateral_dir'' = Inr r"
  shows "\<exists>r'. z_media_var_conhecida Q x_barra mu_0 s n alpha ''unilateral_esq'' = Inr r'
           \<and> map_of r ''z_critico'' = Some (Num (Fin (norm_ppf Q (1 - alpha))))
           \<and> map_of r' ''z_critico'' = Some (Num (Fin (- norm_ppf Q (1 - alpha))))"
  using assms
  by (auto simp add: z_media_var_conhecida_def bind_Inr_iff critico_dir critico_esq Let_def)

lemma z_proporcao_flip:
  assumes "z_proporcao Q p_hat p_0 n alpha ''unilateral_dir'' = Inr r"
  shows "\<exists>r'. z_proporcao Q p_hat p_0 n alpha ''unilateral_esq'' = Inr r'
           \<and> map_of r ''z_critico'' = Some (Num (Fin (norm_ppf Q (1 - alpha))))
           \<and> map_of r' ''z_critico'' = Some (Num (Fin (- norm_ppf Q (1 - alpha))))"
  using assms
  by (auto simp add: z_proporcao_def bind_Inr_iff critico_dir critico_esq Let_def
      split: if_splits)

lemma t_dif_medias_var_iguais_flip:
  assumes "t_dif_medias_var_iguais Q x1 x2 s1 s2 n1 n2 alpha ''unilateral_dir'' = Inr r"
  shows "\<exists>r'. t_dif_medias_var_iguais Q x1 x2 s1 s2 n1 n2 alpha ''unilateral_esq'' = Inr r'
           \<and> map_of r ''t_critico'' = Some (Num (Fin (t_ppf Q (1 - alpha) (n1 + n2 - 2))))
           \<and> map_of r' ''t_critico'' = Some (Num (Fin (- t_ppf Q (1 - alpha) (n1 + n2 - 2))))"
  using assms
  by (auto simp add: t_dif_medias_var_iguais_def bind_Inr_iff critico_dir critico_esq Let_def)

lemma t_welch_dif_medias_flip:
  assumes "t_welch_dif_medias Q x1 x2 s1 s2 n1 n2 alpha ''unilateral_dir'' = Inr r"
  shows "\<exists>r' nu. t_welch_dif_medias Q x1 x2 s1 s2 n1 n2 alpha ''unilateral_esq'' = Inr r'
           \<and> welch_df (s1\<^sup>2 / n1) (s2\<^sup>2 / n2) n1 n2 = Inr nu
           \<and> map_of r ''t_critico'' = Some (Num (Fin (t_ppf Q (1 - alpha) nu)))
           \<and> map_of r' ''t_critico'' = Some (Num (Fin (- t_ppf Q (1 - alpha) nu)))"
  using assms
  by (auto simp add: t_welch_dif_medias_def bind_Inr_iff critico_dir critico_esq Let_def)

lemma t_pareado_flip:
  assumes "t_pareado Q d_barra delta s n alpha ''unilateral_dir'' = Inr r"
  shows "\<exists>r'. t_pareado Q d_barra delta s n alpha ''unilateral_esq'' = Inr r'
           \<and> map_of r ''t_critico'' = Some (Num (Fin (t_ppf Q (1 - alpha) (n - 1))))
           \<and> map_of r' ''t_critico'' = Some (Num (Fin (- t_ppf Q (1 - alpha) (n - 1))))"
  using assms
  by (auto simp add: t_pareado_def bind_Inr_iff critico_dir critico_esq Let_def)

lemma z_dif_medias_var_conhecidas_flip:
  assumes "z_dif_medias_var_conhecidas Q x1 x2 s1 s2 n1 n2 alpha ''unilateral_dir'' = Inr r"
  shows "\<exists>r'. z_dif_medias_var_conhecidas Q x1 x2 s1 s2 n1 n2 alpha ''unilateral_esq'' = Inr r'
           \<and> map_of r ''z_critico'' = Some (Num (Fin (norm_ppf Q (1 - alpha))))
           \<and> map_of r' ''z_critico'' = Some (Num (Fin (- norm_ppf Q (1 - alpha))))"
  using assms
  by (auto simp add: z_dif_medias_var_conhecidas_def bind_Inr_iff critico_dir critico_esq Let_def)

lemma z_dif_proporcoes_flip:
  assumes "z_dif_proporcoes Q p_hat p_0 n1 n2 alpha ''unilateral_dir'' = Inr r"
  shows "\<exists>r'. z_dif_proporcoes Q p_hat p_0 n1 n2 alpha ''unilateral_esq'' = Inr r'
           \<and> map_of r ''z_critico'' = Some (Num (Fin (norm_ppf Q (1 - alpha))))
           \<and> map_of r' ''z_critico'' = Some (Num (Fin (- norm_ppf Q (1 - alpha))))"
  using assms
  by (auto simp add: z_dif_proporcoes_def bind_Inr_iff critico_dir critico_esq Let_def
      split: if_splits)


section \<open>The Welch procedures\<close>

lemma welch_denominator_pos:
  fixes w_1 w_2 n_1 n_2 :: real
  assumes "1 < n_1" "1 < n_2" "0 \<le> w_1" "0 \<le> w_2" "\<not> (w_1 = 0 \<and> w_2 = 0)"
  shows "0 < w_1\<^sup>2 / (n_1 + 1) + w_2\<^sup>2 / (n_2 + 1)"
proof -
  have a: "0 \<le> w_1\<^sup>2 / (n_1 + 1)" and b: "0 \<le> w_2\<^sup>2 / (n_2 + 1)"
    using assms by simp_all
  have "0 < w_1\<^sup>2 / (n_1 + 1) \<or> 0 < w_2\<^sup>2 / (n_2 + 1)"
  proof (cases "w_1 = 0")
    case True
    then have "w_2 \<noteq> 0" using assms(5) by simp
    then have "0 < w_2\<^sup>2" by simp
    then show ?thesis using assms(2) by simp
  next
    case False
    then have "0 < w_1\<^sup>2" by simp
    then show ?thesis using assms(1) by simp
  qed
  then show ?thesis using a b by linarith
qed

lemma welch_upper:
  fixes w_1 w_2 p q :: real
  assumes "0 < p" "0 < q"
  shows "(w_1 + w_2)\<^sup>2 \<le> (p + q) * (w_1\<^sup>2 / p + w_2\<^sup>2 / q)"
proof -
  have "(p + q) * (w_1\<^sup>2 / p + w_2\<^sup>2 / q) - (w_1 + w_2)\<^sup>2
          = (q * w_1 - p * w_2)\<^sup>2 / (p * q)"
    using assms by (simp add: field_simps power2_eq_square)
  moreover have "0 \<le> (q * w_1 - p * w_2)\<^sup>2 / (p * q)"
    using assms by simp
  ultimately show ?thesis by linarith
qed

lemma welch_lower:
  fixes w_1 w_2 p q :: real
  assumes "0 < p" "0 < q" "0 \<le> w_1" "0 \<le> w_2"
  shows "min p q * (w_1\<^sup>2 / p + w_2\<^sup>2 / q) \<le> (w_1 + w_2)\<^sup>2"
proof -
  have m1: "min p q / p \<le> 1" and m2: "min p q / q \<le> 1"
    using assms by simp_all
  have "min p q * (w_1\<^sup>2 / p + w_2\<^sup>2 / q) = (min p q / p) * w_1\<^sup>2 + (min p q / q) * w_2\<^sup>2"
    by (simp add: algebra_simps)
  also have "\<dots> \<le> 1 * w_1\<^sup>2 + 1 * w_2\<^sup>2"
    by (intro add_mono mult_right_mono m1 m2) simp_all
  also have "\<dots> \<le> (w_1 + w_2)\<^sup>2"
    using assms(3,4) by (simp add: power2_sum)
  finally show ?thesis .
qed

lemma welch_df_bounds:
  fixes w_1 w_2 n_1 n_2 :: real
  assumes "1 < n_1" "1 < n_2" "0 \<le> w_1" "0 \<le> w_2" "\<not> (w_1 = 0 \<and> w_2 = 0)"
  shows "welch_df w_1 w_2 n_1 n_2
           = Inr ((w_1 + w_2)\<^sup>2 / (w_1\<^sup>2 / (n_1 + 1) + w_2\<^sup>2 / (n_2 + 1)))"
    and "min n_1 n_2 + 1 \<le> (w_1 + w_2)\<^sup>2 / (w_1\<^sup>2 / (n_1 + 1) + w_2\<^sup>2 / (n_2 + 1))"
    and "(w_1 + w_2)\<^sup>2 / (w_1\<^sup>2 / (n_1 + 1) + w_2\<^sup>2 / (n_2 + 1)) \<le> n_1 + n_2 + 2"
proof -
  let ?D = "w_1\<^sup>2 / (n_1 + 1) + w_2\<^sup>2 / (n_2 + 1)"
  have D: "0 < ?D" using welch_denominator_pos [OF assms] .
  show "welch_df w_1 w_2 n_1 n_2 = Inr ((w_1 + w_2)\<^sup>2 / ?D)"
    using D by (simp add: welch_df_def py_div_def Let_def)
  have "min (n_1 + 1) (n_2 + 1) * ?D \<le> (w_1 + w_2)\<^sup>2"
    using welch_lower [of "n_1 + 1" "n_2 + 1" w_1 w_2] assms by simp
  moreover have "min (n_1 + 1) (n_2 + 1) = min n_1 n_2 + 1" by simp
  ultimately show "min n_1 n_2 + 1 \<le> (w_1 + w_2)\<^sup>2 / ?D"
    using D by (simp add: pos_le_divide_eq)
  have "(w_1 + w_2)\<^sup>2 \<le> (n_1 + 1 + (n_2 + 1)) * ?D"
    using welch_upper [of "n_1 + 1" "n_2 + 1" w_1 w_2] assms by simp
  then show "(w_1 + w_2)\<^sup>2 / ?D \<le> n_1 + n_2 + 2"
    using D by (simp add: pos_divide_le_eq algebra_simps)
qed

lemma test_diff_means_welch_summary:
  assumes "2 \<le> n_1" "2 \<le> n_2" "0 < alpha" "alpha < 1"
    and "welch_df (s_sq_1 / of_int n_1) (s_sq_2 / of_int n_2) (of_int n_1) (of_int n_2) = Inr df"
  shows "test_diff_means_welch Q (Some x_bar_1) (Some x_bar_2) (Some s_sq_1) (Some s_sq_2)
           (Some n_1) (Some n_2) (Some alpha) None None
         = Inr [(''x_bar_1'', Num (round2 (Fin x_bar_1))),
                (''x_bar_2'', Num (round2 (Fin x_bar_2))),
                (''s_sq_1'', Num (round2 (Fin s_sq_1))),
                (''s_sq_2'', Num (round2 (Fin s_sq_2))),
                (''n_1'', Cnt n_1),
                (''n_2'', Cnt n_2),
                (''alpha'', Num (Fin alpha)),
                (''w_1'', Num (round2 (Fin (s_sq_1 / of_int n_1)))),
                (''w_2'', Num (round2 (Fin (s_sq_2 / of_int n_2)))),
                (''t_calc'', Num (round2 (np_div (Fin (x_bar_1 - x_bar_2))
                                (np_sqrt (s_sq_1 / of_int n_1 + s_sq_2 / of_int n_2))))),
                (''df'', Num (round2 (Fin df))),
                (''t_critico_bilateral'', Num (round2 (Fin (t_ppf Q (1 - alpha / 2) df)))),
                (''t_critico_unilateral'', Num (round2 (Fin (t_ppf Q (1 - alpha) df))))]"
  using assms
  by (simp add: test_diff_means_welch_def two_samples_def validate_alpha_def
      validate_sample_size_def Let_def)

lemma t_welch_dif_medias_valid:
  assumes "tipo_teste \<in> {''bilateral'', ''unilateral_dir'', ''unilateral_esq''}"
    and "1 < n1" "1 < n2" "0 \<le> s1" "0 \<le> s2" "0 < alpha" "alpha < 1"
    and "welch_df (s1\<^sup>2 / n1) (s2\<^sup>2 / n2) n1 n2 = Inr nu"
  shows "t_welch_dif_medias Q x1_barra x2_barra s1 s2 n1 n2 alpha tipo_teste
         = Inr [(''Tipo de Teste'', Txt tipo_teste),
                (''W1 (S12/n1)'', Num (Fin (s1\<^sup>2 / n1))),
                (''W2 (S22/n2)'', Num (Fin (s2\<^sup>2 / n2))),
                (''Graus de Liberdade Welch (nu)'', Num (Fin nu)),
                (''t_calculado'', Num (np_div (Fin (x1_barra - x2_barra))
                                    (np_sqrt (s1\<^sup>2 / n1 + s2\<^sup>2 / n2)))),
                (''t_critico'', Num (Fin (critico_simetrico (\<lambda>p. t_ppf Q p nu) alpha tipo_teste))),
                (''Nivel de Significancia (alpha)'', Num (Fin alpha))]"
proof -
  have "tipo_valido tipo_teste = Inr ()"
    using assms(1) by (auto simp add: tipo_valido_def)
  then show ?thesis
    using assms(2-)
    by (simp add: t_welch_dif_medias_def validar_parametros_def Let_def)
qed

lemma np_statistic:
  assumes "0 < w"
  shows "np_div (Fin a) (np_sqrt w) = Fin (a / sqrt w)"
  using assms by (simp add: np_sqrt_def)

lemma py_round2_example: "py_round2 2 = 2" "py_round2 (4400 / 163) = 2699 / 100"
  by (simp_all add: py_round2_def round_half_even_def Let_def)

lemma welch_df_example:
  "welch_df (4 / 10) (9 / 15) 10 15 = Inr (4400 / 163)"
  by (simp add: welch_df_def py_div_def Let_def power2_eq_square)
lemma test_diff_means_welch_df_between:
  assumes "2 \<le> n_1" "2 \<le> n_2" "0 \<le> s_sq_1" "0 \<le> s_sq_2" "\<not> (s_sq_1 = 0 \<and> s_sq_2 = 0)"
    and "0 < alpha" "alpha < 1"
  shows "\<exists>df. welch_df (s_sq_1 / of_int n_1) (s_sq_2 / of_int n_2) (of_int n_1) (of_int n_2) = Inr df
           \<and> of_int (min n_1 n_2) + 1 \<le> df \<and> df \<le> of_int (n_1 + n_2) + 2
           \<and> entry (test_diff_means_welch Q (Some x_bar_1) (Some x_bar_2) (Some s_sq_1)
                 (Some s_sq_2) (Some n_1) (Some n_2) (Some alpha) None None) ''df''
               = Some (Num (Fin (py_round2 df)))
           \<and> entry (test_diff_means_welch Q (Some x_bar_1) (Some x_bar_2) (Some s_sq_1)
                 (Some s_sq_2) (Some n_1) (Some n_2) (Some alpha) None None) ''t_critico_bilateral''
               = Some (Num (Fin (py_round2 (t_ppf Q (1 - alpha / 2) df))))
           \<and> entry (test_diff_means_welch Q (Some x_bar_1) (Some x_bar_2) (Some s_sq_1)
                 (Some s_sq_2) (Some n_1) (Some n_2) (Some alpha) None None) ''t_critico_unilateral''
               = Some (Num (Fin (py_round2 (t_ppf Q (1 - alpha) df))))"
proof -
  let ?w1 = "s_sq_1 / real_of_int n_1" and ?w2 = "s_sq_2 / real_of_int n_2"
  have n: "1 < real_of_int n_1" "1 < real_of_int n_2"
    using assms(1,2) by simp_all
  have w: "0 \<le> ?w1" "0 \<le> ?w2" "\<not> (?w1 = 0 \<and> ?w2 = 0)"
    using assms(1-5) by auto
  note b = welch_df_bounds [OF n w]
  have m: "real_of_int (min n_1 n_2) = min (real_of_int n_1) (real_of_int n_2)"
    by (simp add: min_def)
  show ?thesis
    using b m
    by (intro exI [of _ "(?w1 + ?w2)\<^sup>2 / (?w1\<^sup>2 / (of_int n_1 + 1) + ?w2\<^sup>2 / (of_int n_2 + 1))"])
      (simp add: test_diff_means_welch_summary [OF assms(1,2,6,7) b(1)] entry_def)
qed

lemma t_welch_dif_medias_df_between:
  assumes "tipo_teste \<in> {''bilateral'', ''unilateral_dir'', ''unilateral_esq''}"
    and "1 < n1" "1 < n2" "0 \<le> s1" "0 \<le> s2" "\<not> (s1 = 0 \<and> s2 = 0)"
    and "0 < alpha" "alpha < 1"
  shows "\<exists>nu. welch_df (s1\<^sup>2 / n1) (s2\<^sup>2 / n2) n1 n2 = Inr nu
           \<and> min n1 n2 + 1 \<le> nu \<and> nu \<le> n1 + n2 + 2
           \<and> entry (t_welch_dif_medias Q x1_barra x2_barra s1 s2 n1 n2 alpha tipo_teste)
                 ''Graus de Liberdade Welch (nu)''
               = Some (Num (Fin nu))
           \<and> entry (t_welch_dif_medias Q x1_barra x2_barra s1 s2 n1 n2 alpha tipo_teste)
                 ''t_critico''
               = Some (Num (Fin (critico_simetrico (\<lambda>p. t_ppf Q p nu) alpha tipo_teste)))"
proof -
  let ?w1 = "s1\<^sup>2 / n1" and ?w2 = "s2\<^sup>2 / n2"
  have w: "0 \<le> ?w1" "0 \<le> ?w2" "\<not> (?w1 = 0 \<and> ?w2 = 0)"
    using assms(2-6) by auto
  note b = welch_df_bounds [OF assms(2,3) w]
  show ?thesis
    using b
    by (intro exI [of _ "(?w1 + ?w2)\<^sup>2 / (?w1\<^sup>2 / (n1 + 1) + ?w2\<^sup>2 / (n2 + 1))"])
      (simp add: t_welch_dif_medias_valid [OF assms(1-5,7,8) b(1)] entry_def)
qed




lemma test_diff_means_welch_formulas:
  assumes "2 \<le> n_1" "2 \<le> n_2" "0 \<le> s_sq_1" "0 \<le> s_sq_2" "\<not> (s_sq_1 = 0 \<and> s_sq_2 = 0)"
    and "0 < alpha" "alpha < 1"
  shows "entry (test_diff_means_welch Q (Some x_bar_1) (Some x_bar_2) (Some s_sq_1)
             (Some s_sq_2) (Some n_1) (Some n_2) (Some alpha) None None) ''t_calc''
           = Some (Num (Fin (py_round2 ((x_bar_1 - x_bar_2)
                 / sqrt (s_sq_1 / of_int n_1 + s_sq_2 / of_int n_2)))))"
    and "entry (test_diff_means_welch Q (Some x_bar_1) (Some x_bar_2) (Some s_sq_1)
             (Some s_sq_2) (Some n_1) (Some n_2) (Some alpha) None None) ''df''
           = Some (Num (Fin (py_round2 ((s_sq_1 / of_int n_1 + s_sq_2 / of_int n_2)\<^sup>2
                 / ((s_sq_1 / of_int n_1)\<^sup>2 / (of_int n_1 + 1)
                    + (s_sq_2 / of_int n_2)\<^sup>2 / (of_int n_2 + 1))))))"
proof -
  let ?w1 = "s_sq_1 / real_of_int n_1" and ?w2 = "s_sq_2 / real_of_int n_2"
  have n: "1 < real_of_int n_1" "1 < real_of_int n_2"
    using assms(1,2) by simp_all
  have w: "0 \<le> ?w1" "0 \<le> ?w2" "\<not> (?w1 = 0 \<and> ?w2 = 0)"
    using assms(1-5) by auto
  have p: "0 < ?w1 + ?w2"
    using w by linarith
  note r = test_diff_means_welch_summary [OF assms(1,2,6,7) welch_df_bounds(1) [OF n w]]
  show "entry (test_diff_means_welch Q (Some x_bar_1) (Some x_bar_2) (Some s_sq_1)
             (Some s_sq_2) (Some n_1) (Some n_2) (Some alpha) None None) ''t_calc''
           = Some (Num (Fin (py_round2 ((x_bar_1 - x_bar_2) / sqrt (?w1 + ?w2)))))"
    by (simp add: r entry_def np_statistic [OF p])
  show "entry (test_diff_means_welch Q (Some x_bar_1) (Some x_bar_2) (Some s_sq_1)
             (Some s_sq_2) (Some n_1) (Some n_2) (Some alpha) None None) ''df''
           = Some (Num (Fin (py_round2 ((?w1 + ?w2)\<^sup>2
                 / (?w1\<^sup>2 / (of_int n_1 + 1) + ?w2\<^sup>2 / (of_int n_2 + 1))))))"
    by (simp add: r entry_def)
qed

lemma t_welch_dif_medias_formulas:
  assumes "tipo_teste \<in> {''bilateral'', ''unilateral_dir'', ''unilateral_esq''}"
    and "1 < n1" "1 < n2" "0 \<le> s1" "0 \<le> s2" "\<not> (s1 = 0 \<and> s2 = 0)"
    and "0 < alpha" "alpha < 1"
  shows "entry (t_welch_dif_medias Q x1_barra x2_barra s1 s2 n1 n2 alpha tipo_teste)
             ''t_calculado''
           = Some (Num (Fin ((x1_barra - x2_barra) / sqrt (s1\<^sup>2 / n1 + s2\<^sup>2 / n2))))"
    and "entry (t_welch_dif_medias Q x1_barra x2_barra s1 s2 n1 n2 alpha tipo_teste)
             ''Graus de Liberdade Welch (nu)''
           = Some (Num (Fin ((s1\<^sup>2 / n1 + s2\<^sup>2 / n2)\<^sup>2
                 / ((s1\<^sup>2 / n1)\<^sup>2 / (n1 + 1) + (s2\<^sup>2 / n2)\<^sup>2 / (n2 + 1)))))"
proof -
  let ?w1 = "s1\<^sup>2 / n1" and ?w2 = "s2\<^sup>2 / n2"
  have w: "0 \<le> ?w1" "0 \<le> ?w2" "\<not> (?w1 = 0 \<and> ?w2 = 0)"
    using assms(2-6) by auto
  have p: "0 < ?w1 + ?w2"
    using w by linarith
  note r = t_welch_dif_medias_valid [OF assms(1-5,7,8) welch_df_bounds(1) [OF assms(2,3) w]]
  show "entry (t_welch_dif_medias Q x1_barra x2_barra s1 s2 n1 n2 alpha tipo_teste)
             ''t_calculado''
           = Some (Num (Fin ((x1_barra - x2_barra) / sqrt (?w1 + ?w2))))"
    by (simp add: r entry_def np_statistic [OF p])
  show "entry (t_welch_dif_medias Q x1_barra x2_barra s1 s2 n1 n2 alpha tipo_teste)
             ''Graus de Liberdade Welch (nu)''
           = Some (Num (Fin ((?w1 + ?w2)\<^sup>2 / (?w1\<^sup>2 / (n1 + 1) + ?w2\<^sup>2 / (n2 + 1)))))"
    by (simp add: r entry_def)
qed

lemma welch_scenario:
  assumes "0 < alpha" "alpha < 1"
  shows "entry (test_diff_means_welch Q (Some 10) (Some 8) (Some 4) (Some 9) (Some 10)
             (Some 15) (Some alpha) None None) ''t_calc'' = Some (Num (Fin 2))"
    and "entry (test_diff_means_welch Q (Some 10) (Some 8) (Some 4) (Some 9) (Some 10)
             (Some 15) (Some alpha) None None) ''df'' = Some (Num (Fin (2699 / 100)))"
    and "entry (t_welch_dif_medias Q 10 8 2 3 10 15 alpha ''bilateral'') ''t_calculado''
           = Some (Num (Fin 2))"
    and "entry (t_welch_dif_medias Q 10 8 2 3 10 15 alpha ''bilateral'')
             ''Graus de Liberdade Welch (nu)'' = Some (Num (Fin (4400 / 163)))"
proof -
  have e: "welch_df (4 / real_of_int 10) (9 / real_of_int 15) (real_of_int 10) (real_of_int 15)
             = Inr (4400 / 163)"
    using welch_df_example by simp
  have e': "welch_df (2\<^sup>2 / 10) (3\<^sup>2 / 15) 10 15 = Inr (4400 / 163)"
    using welch_df_example by simp
  note r = test_diff_means_welch_summary [OF _ _ assms e, of Q 10 8]
  note r' = t_welch_dif_medias_valid [OF _ _ _ _ _ assms e', of "''bilateral''" Q 10 8]
  show "entry (test_diff_means_welch Q (Some 10) (Some 8) (Some 4) (Some 9) (Some 10)
             (Some 15) (Some alpha) None None) ''t_calc'' = Some (Num (Fin 2))"
    by (simp add: r entry_def np_sqrt_def py_round2_example)
  show "entry (test_diff_means_welch Q (Some 10) (Some 8) (Some 4) (Some 9) (Some 10)
             (Some 15) (Some alpha) None None) ''df'' = Some (Num (Fin (2699 / 100)))"
    by (simp add: r entry_def py_round2_example)
  show "entry (t_welch_dif_medias Q 10 8 2 3 10 15 alpha ''bilateral'') ''t_calculado''
           = Some (Num (Fin 2))"
    by (simp add: r' entry_def np_sqrt_def)
  show "entry (t_welch_dif_medias Q 10 8 2 3 10 15 alpha ''bilateral'')
             ''Graus de Liberdade Welch (nu)'' = Some (Num (Fin (4400 / 163)))"
    by (simp add: r' entry_def)
qed

text \<open>
  Claim C5. For valid inputs both Welch procedures compute the statistic as
  \<open>(x\<^sub>1 - x\<^sub>2) / sqrt (W\<^sub>1 + W\<^sub>2)\<close> with \<open>W\<^sub>i = s\<^sub>i\<^sup>2 / n\<^sub>i\<close> and the degrees of freedom as
  \<open>(W\<^sub>1 + W\<^sub>2)\<^sup>2 / (W\<^sub>1\<^sup>2 / (n\<^sub>1 + 1) + W\<^sub>2\<^sup>2 / (n\<^sub>2 + 1))\<close>; \<^verbatim>\<open>hypothesis_calc.py\<close> stores both
  rounded to two decimals. At \<open>s\<^sub>1\<^sup>2 = 4\<close>, \<open>n\<^sub>1 = 10\<close>, \<open>s\<^sub>2\<^sup>2 = 9\<close>, \<open>n\<^sub>2 = 15\<close>, means 10 and 8, the
  statistic is 2 and the degrees of freedom are \<open>4400 / 163\<close>, stored as 26.99 by
  \<^verbatim>\<open>hypothesis_calc.py\<close> and within 0.005 of 26.99 in the other script.
\<close>

theorem welch_statistic_and_df:
  "(2 \<le> n_1 \<and> 2 \<le> n_2 \<and> 0 \<le> s_sq_1 \<and> 0 \<le> s_sq_2 \<and> \<not> (s_sq_1 = 0 \<and> s_sq_2 = 0)
      \<and> 0 < alpha \<and> alpha < 1 \<longrightarrow>
     entry (test_diff_means_welch Q (Some x_bar_1) (Some x_bar_2) (Some s_sq_1)
         (Some s_sq_2) (Some n_1) (Some n_2) (Some alpha) None None) ''t_calc''
       = Some (Num (Fin (py_round2 ((x_bar_1 - x_bar_2)
             / sqrt (s_sq_1 / of_int n_1 + s_sq_2 / of_int n_2)))))
     \<and> entry (test_diff_means_welch Q (Some x_bar_1) (Some x_bar_2) (Some s_sq_1)
         (Some s_sq_2) (Some n_1) (Some n_2) (Some alpha) None None) ''df''
       = Some (Num (Fin (py_round2 ((s_sq_1 / of_int n_1 + s_sq_2 / of_int n_2)\<^sup>2
             / ((s_sq_1 / of_int n_1)\<^sup>2 / (of_int n_1 + 1)
                + (s_sq_2 / of_int n_2)\<^sup>2 / (of_int n_2 + 1)))))))
   \<and> (tipo_teste \<in> {''bilateral'', ''unilateral_dir'', ''unilateral_esq''}
      \<and> 1 < n1 \<and> 1 < n2 \<and> 0 \<le> s1 \<and> 0 \<le> s2 \<and> \<not> (s1 = 0 \<and> s2 = 0)
      \<and> 0 < alpha \<and> alpha < 1 \<longrightarrow>
     entry (t_welch_dif_medias Q x_bar_1 x_bar_2 s1 s2 n1 n2 alpha tipo_teste) ''t_calculado''
       = Some (Num (Fin ((x_bar_1 - x_bar_2) / sqrt (s1\<^sup>2 / n1 + s2\<^sup>2 / n2))))
     \<and> entry (t_welch_dif_medias Q x_bar_1 x_bar_2 s1 s2 n1 n2 alpha tipo_teste)
         ''Graus de Liberdade Welch (nu)''
       = Some (Num (Fin ((s1\<^sup>2 / n1 + s2\<^sup>2 / n2)\<^sup>2
             / ((s1\<^sup>2 / n1)\<^sup>2 / (n1 + 1) + (s2\<^sup>2 / n2)\<^sup>2 / (n2 + 1))))))
   \<and> (0 < alpha \<and> alpha < 1 \<longrightarrow>
     entry (test_diff_means_welch Q (Some 10) (Some 8) (Some 4) (Some 9) (Some 10)
         (Some 15) (Some alpha) None None) ''t_calc'' = Some (Num (Fin 2))
     \<and> entry (test_diff_means_welch Q (Some 10) (Some 8) (Some 4) (Some 9) (Some 10)
         (Some 15) (Some alpha) None None) ''df'' = Some (Num (Fin (2699 / 100)))
     \<and> entry (t_welch_dif_medias Q 10 8 2 3 10 15 alpha ''bilateral'') ''t_calculado''
       = Some (Num (Fin 2))
     \<and> entry (t_welch_dif_medias Q 10 8 2 3 10 15 alpha ''bilateral'')
         ''Graus de Liberdade Welch (nu)'' = Some (Num (Fin (4400 / 163)))
     \<and> \<bar>4400 / 163 - 2699 / 100\<bar> < (1 / 200 :: real))"
proof -
  have "\<bar>4400 / 163 - 2699 / 100\<bar> < (1 / 200 :: real)"
    by simp
  then show ?thesis
    using test_diff_means_welch_formulas [of n_1 n_2 s_sq_1 s_sq_2 alpha Q x_bar_1 x_bar_2]
      t_welch_dif_medias_formulas [of tipo_teste n1 n2 s1 s2 alpha Q x_bar_1 x_bar_2]
      welch_scenario [of alpha Q]
    by blast
qed

theorem welch_statistic_and_df_witness:
  "(0 :: real) < 1 / 20 \<and> (1 / 20 :: real) < 1
   \<and> entry (test_diff_means_welch example_quantiles (Some 10) (Some 8) (Some 4) (Some 9)
         (Some 10) (Some 15) (Some (1 / 20)) None None) ''t_calc'' = Some (Num (Fin 2))
   \<and> entry (test_diff_means_welch example_quantiles (Some 10) (Some 8) (Some 4) (Some 9)
         (Some 10) (Some 15) (Some (1 / 20)) None None) ''df'' = Some (Num (Fin (2699 / 100)))
   \<and> entry (t_welch_dif_medias example_quantiles 10 8 2 3 10 15 (1 / 20) ''bilateral'')
         ''t_calculado'' = Some (Num (Fin 2))
   \<and> entry (t_welch_dif_medias example_quantiles 10 8 2 3 10 15 (1 / 20) ''bilateral'')
         ''Graus de Liberdade Welch (nu)'' = Some (Num (Fin (4400 / 163)))"
proof -
  have a: "(0 :: real) < 1 / 20 \<and> (1 / 20 :: real) < 1"
    by simp
  show ?thesis
    using a welch_statistic_and_df [of 10 15 4 9 "1 / 20" example_quantiles 10 8
        "''bilateral''" 10 15 2 3]
    by blast
qed

section \<open>The chi-square test of one variance\<close>

lemma test_variance_summary:
  assumes "2 \<le> n" "0 < alpha" "alpha < 1" "0 < sigma_0_sq"
  shows "test_variance Q (Some s_sq) (Some sigma_0_sq) (Some n) (Some alpha) None
         = Inr [(''s_sq'', Num (Fin (py_round2 s_sq))),
                (''sigma_0_sq'', Num (Fin sigma_0_sq)),
                (''n'', Cnt n),
                (''alpha'', Num (Fin alpha)),
                (''chi_sq_calc'', Num (Fin (py_round2 ((of_int n - 1) * s_sq / sigma_0_sq)))),
                (''df'', Cnt (n - 1)),
                (''chi_sq_critico_bilateral_lower'',
                   Num (Fin (py_round2 (chi2_ppf Q (alpha / 2) (of_int (n - 1)))))),
                (''chi_sq_critico_bilateral_upper'',
                   Num (Fin (py_round2 (chi2_ppf Q (1 - alpha / 2) (of_int (n - 1)))))),
                (''chi_sq_critico_unilateral_dir'',
                   Num (Fin (py_round2 (chi2_ppf Q (1 - alpha) (of_int (n - 1)))))),
                (''chi_sq_critico_unilateral_esq'',
                   Num (Fin (py_round2 (chi2_ppf Q alpha (of_int (n - 1))))))]"
  using assms
  by (simp add: test_variance_def validate_alpha_def validate_sample_size_def Let_def)

lemma chi2_variancia_bilateral:
  assumes "1 < n" "0 < alpha" "alpha < 1" "0 \<le> s" "0 < sigma2_0"
  shows "chi2_variancia Q s sigma2_0 n alpha ''bilateral''
         = Inr [(''Tipo de Teste'', Txt ''bilateral''),
                (''Graus de Liberdade (gl)'', Cnt (py_int (n - 1))),
                (''chi2_calculado'', Num (Fin (((n - 1) * s\<^sup>2) / sigma2_0))),
                (''chi2_critico (inferior)'', Num (Fin (chi2_ppf Q (alpha / 2) (n - 1)))),
                (''chi2_critico (superior)'', Num (Fin (chi2_ppf Q (1 - alpha / 2) (n - 1)))),
                (''Nivel de Significancia (alpha)'', Num (Fin alpha))]"
  using assms
  by (simp add: chi2_variancia_def validar_parametros_def Let_def)

text \<open>
  Claim C8. The two-tailed chi-square test of one variance returns two critical values, the
  chi-square quantiles at \<open>\<alpha> / 2\<close> and at \<open>1 - \<alpha> / 2\<close> with \<open>n - 1\<close> degrees of freedom, under
  two keys of their own; \<^verbatim>\<open>hypothesis_calc.py\<close> stores them rounded to two decimals, the
  other script as they are, and its two-tailed result has no single critical value. The two
  probabilities differ, so a quantile function that increases strictly on the open unit
  interval gives a lower critical value strictly below the upper one.
\<close>

theorem chi_square_two_tailed_critical_values:
  "(2 \<le> n \<and> 0 < alpha \<and> alpha < 1 \<and> 0 < sigma_0_sq \<longrightarrow>
      entry (test_variance Q (Some s_sq) (Some sigma_0_sq) (Some n) (Some alpha) None)
          ''chi_sq_critico_bilateral_lower''
        = Some (Num (Fin (py_round2 (chi2_ppf Q (alpha / 2) (of_int (n - 1))))))
      \<and> entry (test_variance Q (Some s_sq) (Some sigma_0_sq) (Some n) (Some alpha) None)
          ''chi_sq_critico_bilateral_upper''
        = Some (Num (Fin (py_round2 (chi2_ppf Q (1 - alpha / 2) (of_int (n - 1)))))))
   \<and> (1 < m \<and> 0 < alpha \<and> alpha < 1 \<and> 0 \<le> s \<and> 0 < sigma_0_sq \<longrightarrow>
      entry (chi2_variancia Q s sigma_0_sq m alpha ''bilateral'') ''chi2_critico (inferior)''
        = Some (Num (Fin (chi2_ppf Q (alpha / 2) (m - 1))))
      \<and> entry (chi2_variancia Q s sigma_0_sq m alpha ''bilateral'') ''chi2_critico (superior)''
        = Some (Num (Fin (chi2_ppf Q (1 - alpha / 2) (m - 1))))
      \<and> entry (chi2_variancia Q s sigma_0_sq m alpha ''bilateral'') ''chi2_critico'' = None)
   \<and> (0 < alpha \<and> alpha < 1 \<longrightarrow> 0 < alpha / 2 \<and> alpha / 2 < 1 - alpha / 2 \<and> 1 - alpha / 2 < 1)
   \<and> (0 < alpha \<and> alpha < 1
        \<and> (\<forall>p q. 0 < p \<and> p < q \<and> q < 1 \<longrightarrow> chi2_ppf Q p df < chi2_ppf Q q df) \<longrightarrow>
      chi2_ppf Q (alpha / 2) df < chi2_ppf Q (1 - alpha / 2) df)"
proof (intro conjI impI)
  assume a: "2 \<le> n \<and> 0 < alpha \<and> alpha < 1 \<and> 0 < sigma_0_sq"
  then have r: "test_variance Q (Some s_sq) (Some sigma_0_sq) (Some n) (Some alpha) None = Inr
     [(''s_sq'', Num (Fin (py_round2 s_sq))),
      (''sigma_0_sq'', Num (Fin sigma_0_sq)),
      (''n'', Cnt n),
      (''alpha'', Num (Fin alpha)),
      (''chi_sq_calc'', Num (Fin (py_round2 ((of_int n - 1) * s_sq / sigma_0_sq)))),
      (''df'', Cnt (n - 1)),
      (''chi_sq_critico_bilateral_lower'',
         Num (Fin (py_round2 (chi2_ppf Q (alpha / 2) (of_int (n - 1)))))),
      (''chi_sq_critico_bilateral_upper'',
         Num (Fin (py_round2 (chi2_ppf Q (1 - alpha / 2) (of_int (n - 1)))))),
      (''chi_sq_critico_unilateral_dir'',
         Num (Fin (py_round2 (chi2_ppf Q (1 - alpha) (of_int (n - 1)))))),
      (''chi_sq_critico_unilateral_esq'',
         Num (Fin (py_round2 (chi2_ppf Q alpha (of_int (n - 1))))))]"
    using test_variance_summary [of n alpha sigma_0_sq Q s_sq] by blast
  show "entry (test_variance Q (Some s_sq) (Some sigma_0_sq) (Some n) (Some alpha) None)
          ''chi_sq_critico_bilateral_lower''
        = Some (Num (Fin (py_round2 (chi2_ppf Q (alpha / 2) (of_int (n - 1))))))"
    unfolding r by (simp add: entry_def)
  show "entry (test_variance Q (Some s_sq) (Some sigma_0_sq) (Some n) (Some alpha) None)
          ''chi_sq_critico_bilateral_upper''
        = Some (Num (Fin (py_round2 (chi2_ppf Q (1 - alpha / 2) (of_int (n - 1))))))"
    unfolding r by (simp add: entry_def)
next
  assume a: "1 < m \<and> 0 < alpha \<and> alpha < 1 \<and> 0 \<le> s \<and> 0 < sigma_0_sq"
  note r = chi2_variancia_bilateral [of m alpha s sigma_0_sq Q]
  show "entry (chi2_variancia Q s sigma_0_sq m alpha ''bilateral'') ''chi2_critico (inferior)''
        = Some (Num (Fin (chi2_ppf Q (alpha / 2) (m - 1))))"
    using a by (simp add: r entry_def)
  show "entry (chi2_variancia Q s sigma_0_sq m alpha ''bilateral'') ''chi2_critico (superior)''
        = Some (Num (Fin (chi2_ppf Q (1 - alpha / 2) (m - 1))))"
    using a by (simp add: r entry_def)
  show "entry (chi2_variancia Q s sigma_0_sq m alpha ''bilateral'') ''chi2_critico'' = None"
    using a by (simp add: r entry_def)
next
  assume "0 < alpha \<and> alpha < 1"
  then show "0 < alpha / 2" "alpha / 2 < 1 - alpha / 2" "1 - alpha / 2 < 1"
    by simp_all
next
  assume a: "0 < alpha \<and> alpha < 1
        \<and> (\<forall>p q. 0 < p \<and> p < q \<and> q < 1 \<longrightarrow> chi2_ppf Q p df < chi2_ppf Q q df)"
  then have "0 < alpha / 2 \<and> alpha / 2 < 1 - alpha / 2 \<and> 1 - alpha / 2 < 1"
    by simp
  with a show "chi2_ppf Q (alpha / 2) df < chi2_ppf Q (1 - alpha / 2) df"
    by blast
qed

lemma example_chi2_increasing:
  assumes "0 < p" "p < q" "q < 1"
  shows "chi2_ppf example_quantiles p df < chi2_ppf example_quantiles q df"
  using assms by (simp add: example_quantiles_def)

theorem chi_square_two_tailed_critical_values_witness:
  "entry (test_variance example_quantiles (Some 16) (Some 10) (Some 3) (Some (1 / 20)) None)
       ''chi_sq_critico_bilateral_lower''
     = Some (Num (Fin (py_round2 (chi2_ppf example_quantiles (1 / 20 / 2) (of_int (3 - 1))))))
   \<and> entry (test_variance example_quantiles (Some 16) (Some 10) (Some 3) (Some (1 / 20)) None)
       ''chi_sq_critico_bilateral_upper''
     = Some (Num (Fin (py_round2 (chi2_ppf example_quantiles (1 - 1 / 20 / 2) (of_int (3 - 1))))))
   \<and> entry (chi2_variancia example_quantiles 4 10 3 (1 / 20) ''bilateral'')
       ''chi2_critico (inferior)''
     = Some (Num (Fin (chi2_ppf example_quantiles (1 / 20 / 2) (3 - 1))))
   \<and> entry (chi2_variancia example_quantiles 4 10 3 (1 / 20) ''bilateral'')
       ''chi2_critico (superior)''
     = Some (Num (Fin (chi2_ppf example_quantiles (1 - 1 / 20 / 2) (3 - 1))))
   \<and> chi2_ppf example_quantiles (1 / 20 / 2) 2 < chi2_ppf example_quantiles (1 - 1 / 20 / 2) 2"
proof -
  note T = chi_square_two_tailed_critical_values [of 3 "1 / 20" 10 example_quantiles 16 3 4 2]
  have A: "(2 :: int) \<le> 3 \<and> (0 :: real) < 1 / 20 \<and> (1 / 20 :: real) < 1 \<and> (0 :: real) < 10"
    by simp
  have B: "(1 :: real) < 3 \<and> (0 :: real) < 1 / 20 \<and> (1 / 20 :: real) < 1 \<and> (0 :: real) \<le> 4
      \<and> (0 :: real) < 10"
    by simp
  have C: "(0 :: real) < 1 / 20 \<and> (1 / 20 :: real) < 1
      \<and> (\<forall>p q. 0 < p \<and> p < q \<and> q < 1 \<longrightarrow>
            chi2_ppf example_quantiles p 2 < chi2_ppf example_quantiles q 2)"
    using example_chi2_increasing by simp
  show ?thesis
    using T A B C by blast
qed

section \<open>The F test of two variances\<close>

lemma f_dif_variancias_bilateral:
  assumes "1 < n1" "1 < n2" "0 < alpha" "alpha < 1" "0 < s1" "0 < s2"
  shows "f_dif_variancias Q s1 s2 n1 n2 alpha ''bilateral''
         = Inr [(''Tipo de Teste'', Txt ''bilateral''),
                (''Graus de Liberdade 1 (gl1)'', Cnt (py_int (n1 - 1))),
                (''Graus de Liberdade 2 (gl2)'', Cnt (py_int (n2 - 1))),
                (''F_calculado'', Num (Fin (max (s1\<^sup>2) (s2\<^sup>2) / min (s1\<^sup>2) (s2\<^sup>2)))),
                (''F_critico'', Num (Fin (if s2\<^sup>2 < s1\<^sup>2
                                          then f_ppf Q (1 - alpha / 2) (n1 - 1) (n2 - 1)
                                          else f_ppf Q (1 - alpha / 2) (n2 - 1) (n1 - 1)))),
                (''Nivel de Significancia (alpha)'', Num (Fin alpha))]"
proof -
  have sq: "s2\<^sup>2 < s1\<^sup>2 \<longleftrightarrow> s2 < s1"
    using assms(5,6) by (auto intro: power2_less_imp_less power_strict_mono)
  have mx: "(max s1 s2)\<^sup>2 = max (s1\<^sup>2) (s2\<^sup>2)" and mn: "(min s1 s2)\<^sup>2 = min (s1\<^sup>2) (s2\<^sup>2)"
    using sq by (auto simp add: max_def min_def)
  have nz: "min (s1\<^sup>2) (s2\<^sup>2) \<noteq> 0"
    using assms(5,6) by (simp add: min_def)
  show ?thesis
    using assms nz
    by (simp add: f_dif_variancias_def validar_parametros_def Let_def py_div_def mx mn sq)
qed

lemma f_dif_variancias_unilateral:
  assumes "1 < n1" "1 < n2" "0 < alpha" "alpha < 1" "0 \<le> s1" "0 < s2"
  shows "f_dif_variancias Q s1 s2 n1 n2 alpha ''unilateral_dir''
         = Inr [(''Tipo de Teste'', Txt ''unilateral_dir''),
                (''Graus de Liberdade 1 (gl1)'', Cnt (py_int (n1 - 1))),
                (''Graus de Liberdade 2 (gl2)'', Cnt (py_int (n2 - 1))),
                (''F_calculado'', Num (Fin (s1\<^sup>2 / s2\<^sup>2))),
                (''F_critico'', Num (Fin (f_ppf Q (1 - alpha) (n1 - 1) (n2 - 1)))),
                (''Nivel de Significancia (alpha)'', Num (Fin alpha))]"
  using assms
  by (simp add: f_dif_variancias_def validar_parametros_def Let_def py_div_def)

lemma test_diff_variances_summary:
  assumes "2 \<le> n_1" "2 \<le> n_2" "0 < alpha" "alpha < 1" "s_sq_2 \<noteq> 0"
  shows "test_diff_variances Q (Some s_sq_1) (Some s_sq_2) (Some n_1) (Some n_2) (Some alpha)
           None None
         = Inr [(''s_sq_1'', Num (Fin (py_round2 s_sq_1))),
                (''s_sq_2'', Num (Fin (py_round2 s_sq_2))),
                (''n_1'', Cnt n_1),
                (''n_2'', Cnt n_2),
                (''alpha'', Num (Fin alpha)),
                (''f_calc'', Num (Fin (py_round2 (s_sq_1 / s_sq_2)))),
                (''df_1'', Cnt (n_1 - 1)),
                (''df_2'', Cnt (n_2 - 1)),
                (''f_critico_bilateral'',
                   Num (Fin (py_round2 (f_ppf Q (1 - alpha / 2) (of_int (n_1 - 1))
                                          (of_int (n_2 - 1)))))),
                (''f_critico_unilateral'',
                   Num (Fin (py_round2 (f_ppf Q (1 - alpha) (of_int (n_1 - 1))
                                          (of_int (n_2 - 1))))))]"
  using assms
  by (simp add: test_diff_variances_def two_samples_def validate_alpha_def
      validate_sample_size_def py_div_def Let_def)
text \<open>
  Claim C3 on the code. \<^verbatim>\<open>f_dif_variancias\<close> does what the claim says (the two lemmas
  above). \<^verbatim>\<open>test_diff_variances\<close> of \<^verbatim>\<open>hypothesis_calc.py\<close>, whose docstring announces the
  ratio of the larger to the smaller variance for the two-tailed test, always divides the
  first variance by the second and takes both critical values at \<open>(n\<^sub>1 - 1, n\<^sub>2 - 1)\<close>: with
  variances 4 and 9 and sizes 10 and 15 it stores 0.44 and the quantile at \<open>(9, 14)\<close>, where
  the claim and the other script have 2.25 and the quantile at \<open>(14, 9)\<close>.
\<close>

theorem test_diff_variances_two_tailed_unswapped:
  "entry (test_diff_variances Q (Some 4) (Some 9) (Some 10) (Some 15) (Some (1 / 20)) None None)
       ''f_calc''
     = Some (Num (Fin (11 / 25)))
   \<and> entry (test_diff_variances Q (Some 4) (Some 9) (Some 10) (Some 15) (Some (1 / 20)) None None)
       ''f_critico_bilateral''
     = Some (Num (Fin (py_round2 (f_ppf Q (39 / 40) 9 14))))
   \<and> max 4 9 / min 4 9 = (9 / 4 :: real)
   \<and> entry (f_dif_variancias Q 2 3 10 15 (1 / 20) ''bilateral'') ''F_calculado''
     = Some (Num (Fin (9 / 4)))
   \<and> entry (f_dif_variancias Q 2 3 10 15 (1 / 20) ''bilateral'') ''F_critico''
     = Some (Num (Fin (f_ppf Q (39 / 40) 14 9)))"
proof -
  have r: "py_round2 (4 / 9) = 11 / 25"
    by (simp add: py_round2_def round_half_even_def Let_def)
  show ?thesis
    by (simp add: test_diff_variances_summary f_dif_variancias_bilateral entry_def r)
qed

theorem test_diff_variances_two_tailed_unswapped_witness:
  "entry (test_diff_variances example_quantiles (Some 4) (Some 9) (Some 10) (Some 15)
       (Some (1 / 20)) None None) ''f_calc''
     = Some (Num (Fin (11 / 25)))
   \<and> entry (f_dif_variancias example_quantiles 2 3 10 15 (1 / 20) ''bilateral'') ''F_calculado''
     = Some (Num (Fin (9 / 4)))"
  using test_diff_variances_two_tailed_unswapped [of example_quantiles]
  by simp

section \<open>Division before the completeness check\<close>

text \<open>
  Claim C10. When both success counts are given, \<^verbatim>\<open>test_diff_proportions\<close> divides them by
  the sample sizes before it checks that every value is present: with the first sample size
  absent the call fails with \<^verbatim>\<open>TypeError\<close>, and so it does with the second one absent and
  the first one not zero. Without the success counts an absent sample size gives the
  \<^verbatim>\<open>ValueError\<close> of incomplete values.
\<close>

theorem test_diff_proportions_type_error:
  "test_diff_proportions Q p_hat_1 p_hat_2 None n_2 alpha (Some successes_1) (Some successes_2)
     = Inl TypeError
   \<and> (n_1 \<noteq> 0 \<longrightarrow>
        test_diff_proportions Q p_hat_1 p_hat_2 (Some n_1) None alpha (Some successes_1)
          (Some successes_2)
        = Inl TypeError)
   \<and> test_diff_proportions Q p_hat_1 p_hat_2 None n_2 alpha None None
     = Inl IncompleteInputParameters
   \<and> test_diff_proportions Q p_hat_1 p_hat_2 (Some n_1) None alpha None None
     = Inl IncompleteInputParameters"
  by (simp add: test_diff_proportions_def div_by_count_def py_div_def)

theorem test_diff_proportions_type_error_witness:
  "test_diff_proportions example_quantiles None None None (Some 80) (Some (1 / 20)) (Some 40)
      (Some 30)
     = Inl TypeError
   \<and> (100 :: int) \<noteq> 0
   \<and> test_diff_proportions example_quantiles None None (Some 100) None (Some (1 / 20)) (Some 40)
        (Some 30)
     = Inl TypeError
   \<and> test_diff_proportions example_quantiles (Some (2 / 5)) (Some (3 / 8)) None (Some 80)
        (Some (1 / 20)) None None
     = Inl IncompleteInputParameters"
  using test_diff_proportions_type_error [of example_quantiles None None "Some 80"
      "Some (1 / 20)" 40 30 100]
    test_diff_proportions_type_error [of example_quantiles "Some (2 / 5)" "Some (3 / 8)"
      "Some 80" "Some (1 / 20)" 40 30 100]
  by simp

section \<open>Validation\<close>

lemma sqrt_25: "sqrt 25 = 5"
proof -
  have "sqrt (5\<^sup>2) = 5"
    by (rule real_sqrt_unique) simp_all
  then show ?thesis by simp
qed

lemma hypothesis_calc_rejects_alpha:
  assumes "\<not> (0 < alpha \<and> alpha < 1)"
  shows "test_mean_unknown_variance Q (Some x_bar) (Some s) (Some n) (Some mu_0) (Some alpha) None
           = Inl InvalidSignificanceLevel"
    and "test_diff_means_equal_variances Q (Some x_bar_1) (Some x_bar_2) (Some s_sq_1)
           (Some s_sq_2) (Some n_1) (Some n_2) (Some alpha) None None
           = Inl InvalidSignificanceLevel"
    and "test_diff_means_welch Q (Some x_bar_1) (Some x_bar_2) (Some s_sq_1) (Some s_sq_2)
           (Some n_1) (Some n_2) (Some alpha) None None
           = Inl InvalidSignificanceLevel"
    and "test_paired_samples Q (Some x_bar) (Some s) (Some n) delta (Some alpha) None
           = Inl InvalidSignificanceLevel"
    and "test_mean_known_variance Q (Some x_bar) (Some s) (Some n) (Some mu_0) (Some alpha) None
           = Inl InvalidSignificanceLevel"
    and "test_proportion Q (Some p_hat) (Some p_0) (Some n) (Some alpha) None
           = Inl InvalidSignificanceLevel"
    and "test_variance Q (Some s_sq_1) (Some sigma_0_sq) (Some n) (Some alpha) None
           = Inl InvalidSignificanceLevel"
    and "test_diff_proportions Q (Some p_hat) (Some p_0) (Some n_1) (Some n_2) (Some alpha)
           None None
           = Inl InvalidSignificanceLevel"
    and "test_diff_variances Q (Some s_sq_1) (Some s_sq_2) (Some n_1) (Some n_2) (Some alpha)
           None None
           = Inl InvalidSignificanceLevel"
  using assms
  by (simp_all add: test_mean_unknown_variance_def test_diff_means_equal_variances_def
      test_diff_means_welch_def test_paired_samples_def test_mean_known_variance_def
      test_proportion_def test_variance_def test_diff_proportions_def test_diff_variances_def
      two_samples_def validate_alpha_def)

lemma hypothesis_calc_rejects_sample_size:
  assumes "0 < alpha" "alpha < 1" "n < 2" "n_1 < 2 \<or> n_2 < 2"
  shows "test_mean_unknown_variance Q (Some x_bar) (Some s) (Some n) (Some mu_0) (Some alpha) None
           = Inl InsufficientSampleSize"
    and "test_diff_means_equal_variances Q (Some x_bar_1) (Some x_bar_2) (Some s_sq_1)
           (Some s_sq_2) (Some n_1) (Some n_2) (Some alpha) None None
           = Inl InsufficientSampleSize"
    and "test_diff_means_welch Q (Some x_bar_1) (Some x_bar_2) (Some s_sq_1) (Some s_sq_2)
           (Some n_1) (Some n_2) (Some alpha) None None
           = Inl InsufficientSampleSize"
    and "test_paired_samples Q (Some x_bar) (Some s) (Some n) delta (Some alpha) None
           = Inl InsufficientSampleSize"
    and "test_mean_known_variance Q (Some x_bar) (Some s) (Some n) (Some mu_0) (Some alpha) None
           = Inl InsufficientSampleSize"
    and "test_proportion Q (Some p_hat) (Some p_0) (Some n) (Some alpha) None
           = Inl InsufficientSampleSize"
    and "test_variance Q (Some s_sq_1) (Some sigma_0_sq) (Some n) (Some alpha) None
           = Inl InsufficientSampleSize"
    and "test_diff_proportions Q (Some p_hat) (Some p_0) (Some n_1) (Some n_2) (Some alpha)
           None None
           = Inl InsufficientSampleSize"
    and "test_diff_variances Q (Some s_sq_1) (Some s_sq_2) (Some n_1) (Some n_2) (Some alpha)
           None None
           = Inl InsufficientSampleSize"
  using assms
  by (auto simp add: test_mean_unknown_variance_def test_diff_means_equal_variances_def
      test_diff_means_welch_def test_paired_samples_def test_mean_known_variance_def
      test_proportion_def test_variance_def test_diff_proportions_def test_diff_variances_def
      two_samples_def validate_alpha_def validate_sample_size_def)

lemma hypothesis_calc_rejects_null_variance_and_proportions:
  assumes "0 < alpha" "alpha < 1" "2 \<le> n" "2 \<le> n_1" "2 \<le> n_2"
  shows "sigma_0_sq \<le> 0 \<Longrightarrow>
           test_variance Q (Some s_sq) (Some sigma_0_sq) (Some n) (Some alpha) None
           = Inl InvalidNullVariance"
    and "p_hat < 0 \<or> 1 < p_hat \<or> p_0 < 0 \<or> 1 < p_0 \<Longrightarrow>
           test_proportion Q (Some p_hat) (Some p_0) (Some n) (Some alpha) None
           = Inl InvalidProportion"
    and "p_hat < 0 \<or> 1 < p_hat \<or> p_0 < 0 \<or> 1 < p_0 \<Longrightarrow>
           test_diff_proportions Q (Some p_hat) (Some p_0) (Some n_1) (Some n_2) (Some alpha)
             None None
           = Inl InvalidProportion"
  using assms
  by (auto simp add: test_variance_def test_proportion_def test_diff_proportions_def
      validate_alpha_def validate_sample_size_def)

lemma validar_parametros_rejects:
  "n \<le> 1 \<Longrightarrow> validar_parametros (Some n) alpha_opt s_opt = Inl InsufficientSampleSize"
  "1 < n \<Longrightarrow> alpha \<le> 0 \<or> 1 \<le> alpha \<Longrightarrow>
     validar_parametros (Some n) (Some alpha) s_opt = Inl InvalidSignificanceLevel"
  "1 < n \<Longrightarrow> 0 < alpha \<Longrightarrow> alpha < 1 \<Longrightarrow> sd < 0 \<Longrightarrow>
     validar_parametros (Some n) (Some alpha) (Some sd) = Inl InvalidSpreadParameter"
  "1 < n \<Longrightarrow> 0 < alpha \<Longrightarrow> alpha < 1 \<Longrightarrow> 0 \<le> sd \<Longrightarrow>
     validar_parametros (Some n) (Some alpha) (Some sd) = Inr ()"
  "1 < n \<Longrightarrow> 0 < alpha \<Longrightarrow> alpha < 1 \<Longrightarrow>
     validar_parametros (Some n) (Some alpha) None = Inr ()"
  by (auto simp add: validar_parametros_def)

lemma calculadora_rejects_invalid_parameters:
  assumes "n \<le> 1 \<or> alpha \<le> 0 \<or> 1 \<le> alpha \<or> s < 0"
    and "n1 \<le> 1 \<or> n2 \<le> 1 \<or> alpha \<le> 0 \<or> 1 \<le> alpha \<or> s1 < 0 \<or> s2 < 0"
  shows "isl (t_media_var_desconhecida Q x_barra mu_0 s n alpha tipo_teste)"
    and "isl (z_media_var_conhecida Q x_barra mu_0 s n alpha tipo_teste)"
    and "isl (chi2_variancia Q s sigma2_0 n alpha tipo_teste)"
    and "isl (t_pareado Q x_barra delta s n alpha tipo_teste)"
    and "isl (t_dif_medias_var_iguais Q x1 x2 s1 s2 n1 n2 alpha tipo_teste)"
    and "isl (t_welch_dif_medias Q x1 x2 s1 s2 n1 n2 alpha tipo_teste)"
    and "isl (z_dif_medias_var_conhecidas Q x1 x2 s1 s2 n1 n2 alpha tipo_teste)"
    and "isl (f_dif_variancias Q s1 s2 n1 n2 alpha tipo_teste)"
  using assms
  by (auto simp add: t_media_var_desconhecida_def z_media_var_conhecida_def chi2_variancia_def
      t_pareado_def t_dif_medias_var_iguais_def t_welch_dif_medias_def
      z_dif_medias_var_conhecidas_def f_dif_variancias_def validar_parametros_def bind_def
      split: sum.splits)

lemma calculadora_spread_error:
  assumes "tipo_teste \<in> {''bilateral'', ''unilateral_dir'', ''unilateral_esq''}"
    and "1 < n" "0 < alpha" "alpha < 1" "s < 0"
  shows "t_media_var_desconhecida Q x_barra mu_0 s n alpha tipo_teste = Inl InvalidSpreadParameter"
    and "z_media_var_conhecida Q x_barra mu_0 s n alpha tipo_teste = Inl InvalidSpreadParameter"
    and "chi2_variancia Q s sigma2_0 n alpha tipo_teste = Inl InvalidSpreadParameter"
    and "t_pareado Q x_barra delta s n alpha tipo_teste = Inl InvalidSpreadParameter"
    and "t_dif_medias_var_iguais Q x1 x2 s s2 n n2 alpha tipo_teste = Inl InvalidSpreadParameter"
    and "t_welch_dif_medias Q x1 x2 s s2 n n2 alpha tipo_teste = Inl InvalidSpreadParameter"
    and "z_dif_medias_var_conhecidas Q x1 x2 s s2 n n2 alpha tipo_teste
           = Inl InvalidSpreadParameter"
proof -
  have t: "tipo_valido tipo_teste = Inr ()"
    using assms(1) by (auto simp add: tipo_valido_def)
  note v = validar_parametros_rejects(3) [OF assms(2-5)]
  show "t_media_var_desconhecida Q x_barra mu_0 s n alpha tipo_teste = Inl InvalidSpreadParameter"
    and "z_media_var_conhecida Q x_barra mu_0 s n alpha tipo_teste = Inl InvalidSpreadParameter"
    and "chi2_variancia Q s sigma2_0 n alpha tipo_teste = Inl InvalidSpreadParameter"
    and "t_pareado Q x_barra delta s n alpha tipo_teste = Inl InvalidSpreadParameter"
    and "t_dif_medias_var_iguais Q x1 x2 s s2 n n2 alpha tipo_teste = Inl InvalidSpreadParameter"
    and "t_welch_dif_medias Q x1 x2 s s2 n n2 alpha tipo_teste = Inl InvalidSpreadParameter"
    and "z_dif_medias_var_conhecidas Q x1 x2 s s2 n n2 alpha tipo_teste
           = Inl InvalidSpreadParameter"
    by (simp_all add: t_media_var_desconhecida_def z_media_var_conhecida_def chi2_variancia_def
        t_pareado_def t_dif_medias_var_iguais_def t_welch_dif_medias_def
        z_dif_medias_var_conhecidas_def t v)
qed

lemma calculadora_null_variance_and_proportions:
  assumes "tipo_teste \<in> {''bilateral'', ''unilateral_dir'', ''unilateral_esq''}"
    and "1 < n" "1 < n2" "0 < alpha" "alpha < 1"
  shows "0 \<le> s \<Longrightarrow> sigma2_0 \<le> 0 \<Longrightarrow>
           chi2_variancia Q s sigma2_0 n alpha tipo_teste = Inl InvalidNullVariance"
    and "p_hat < 0 \<or> 1 < p_hat \<or> p_0 < 0 \<or> 1 < p_0 \<Longrightarrow>
           z_proporcao Q p_hat p_0 n alpha tipo_teste = Inl InvalidProportion"
    and "p_hat < 0 \<or> 1 < p_hat \<or> p_0 < 0 \<or> 1 < p_0 \<Longrightarrow>
           z_dif_proporcoes Q p_hat p_0 n n2 alpha tipo_teste = Inl InvalidProportion"
proof -
  have t: "tipo_valido tipo_teste = Inr ()"
    using assms(1) by (auto simp add: tipo_valido_def)
  show "0 \<le> s \<Longrightarrow> sigma2_0 \<le> 0 \<Longrightarrow>
           chi2_variancia Q s sigma2_0 n alpha tipo_teste = Inl InvalidNullVariance"
    using assms(2-) by (simp add: chi2_variancia_def t validar_parametros_rejects(4))
  show "p_hat < 0 \<or> 1 < p_hat \<or> p_0 < 0 \<or> 1 < p_0 \<Longrightarrow>
           z_proporcao Q p_hat p_0 n alpha tipo_teste = Inl InvalidProportion"
    using assms(2-) by (auto simp add: z_proporcao_def t validar_parametros_rejects(5))
  show "p_hat < 0 \<or> 1 < p_hat \<or> p_0 < 0 \<or> 1 < p_0 \<Longrightarrow>
           z_dif_proporcoes Q p_hat p_0 n n2 alpha tipo_teste = Inl InvalidProportion"
    using assms(2-) by (auto simp add: z_dif_proporcoes_def t validar_parametros_rejects(5))
qed

text \<open>
  Claim C6 on the code. The procedures of \<^verbatim>\<open>calculadora_testes_hipoteses.py\<close> refuse a
  negative spread; those of \<^verbatim>\<open>hypothesis_calc.py\<close> validate the significance level and the
  sample size only and compute with a negative standard deviation: at mean 52, standard
  deviation \<open>-10\<close>, size 25, hypothesised mean 50 and level 0.05 the t test returns a result
  whose statistic is \<open>-1\<close>. Two procedures of \<^verbatim>\<open>hypothesis_calc.py\<close> also divide by the sample
  size before validating it, so that a size of zero raises \<^verbatim>\<open>ZeroDivisionError\<close> instead of
  the sample-size error.
\<close>

theorem negative_spread_not_rejected:
  "test_mean_unknown_variance Q (Some 52) (Some (- 10)) (Some 25) (Some 50) (Some (1 / 20)) None
     = Inr [(''x_bar'', Num (Fin 52)),
            (''s'', Num (Fin (- 10))),
            (''n'', Cnt 25),
            (''mu_0'', Num (Fin 50)),
            (''alpha'', Num (Fin (1 / 20))),
            (''t_calc'', Num (Fin (- 1))),
            (''df'', Cnt 24),
            (''t_critico_bilateral'', Num (Fin (py_round2 (t_ppf Q (39 / 40) 24)))),
            (''t_critico_unilateral'', Num (Fin (py_round2 (t_ppf Q (19 / 20) 24))))]
   \<and> t_media_var_desconhecida Q 52 50 (- 10) 25 (1 / 20) ''bilateral''
     = Inl InvalidSpreadParameter
   \<and> test_proportion Q None (Some (1 / 2)) (Some 0) (Some (1 / 20)) (Some 1)
     = Inl ZeroDivisionError
   \<and> test_mean_known_variance Q None (Some 1) None (Some 0) (Some (1 / 20)) (Some [])
     = Inl ZeroDivisionError"
proof -
  have r: "py_round2 52 = 52" "py_round2 (- 10) = - 10" "py_round2 (- 1) = - 1"
    by (simp_all add: py_round2_def round_half_even_def Let_def)
  show ?thesis
    by (simp add: test_mean_unknown_variance_def t_media_var_desconhecida_def
        test_proportion_def test_mean_known_variance_def validate_alpha_def
        validate_sample_size_def validar_parametros_def py_div_def np_sqrt_def sqrt_25 r
        Let_def)
qed

theorem negative_spread_not_rejected_witness:
  "entry (test_mean_unknown_variance example_quantiles (Some 52) (Some (- 10)) (Some 25)
       (Some 50) (Some (1 / 20)) None) ''t_calc''
     = Some (Num (Fin (- 1)))
   \<and> t_media_var_desconhecida example_quantiles 52 50 (- 10) 25 (1 / 20) ''bilateral''
     = Inl InvalidSpreadParameter"
  using negative_spread_not_rejected [of example_quantiles]
  by (simp add: entry_def)

end
